(* ===== verification/Prelude.thy ===== *)
theory Prelude
  imports Complex_Main "HOL-Library.List_Lexorder" "HOL-Library.Char_ord"
begin

text \<open>
  Shared vocabulary of the development of \<^verbatim>\<open>src/ai_coach_dashboard.py\<close>:
  the Python exceptions the script can raise, the Streamlit output elements a run
  of the script produces, Python's \<^verbatim>\<open>dict.get\<close>, and decimal digit strings
  (Python's \<^verbatim>\<open>str(n)\<close> on a non-negative integer and zero padding) with their
  reading function and the round-trip lemmas the formatting and date theories use.
  Strings are byte strings: a literal of the source that is not ASCII is written as
  its UTF-8 bytes.
\<close>

named_theorems digit_simps "evaluation and round-trip facts of decimal digit strings"
named_theorems store_simps "characteristic equations of the SQLite store model"

section \<open>Python values, exceptions and Streamlit output\<close>

type_synonym py_str = string

text \<open>The \<^verbatim>\<open>sqlite3.OperationalError\<close> causes the script can meet, and the
  \<^verbatim>\<open>IndexError\<close> of indexing an empty list.\<close>

datatype sqlite_error = Unable_to_open | No_such_table | Database_full

datatype py_exc = OperationalError sqlite_error | IndexError

text \<open>One element of the page Streamlit renders; an uncaught exception stops the
  script and is rendered as a traceback box.\<close>

datatype ui =
    Title py_str
  | Subheader py_str
  | Write py_str
  | Success py_str
  | Warning py_str
  | Info py_str
  | Error py_str
  | Markdown py_str
  | Caption py_str
  | Traceback py_exc

fun is_traceback :: "ui \<Rightarrow> bool" where
  "is_traceback (Traceback _) = True"
| "is_traceback _ = False"

text \<open>Python's \<^verbatim>\<open>d.get(k, default)\<close>.\<close>

definition dict_get :: "('k \<rightharpoonup> 'v) \<Rightarrow> 'k \<Rightarrow> 'v \<Rightarrow> 'v" where
  "dict_get m k dflt = (case m k of None \<Rightarrow> dflt | Some v \<Rightarrow> v)"

section \<open>Decimal digit strings\<close>

definition digit_char :: "nat \<Rightarrow> char" where
  "digit_char d = ''0123456789'' ! d"

definition digit_val :: "char \<Rightarrow> nat option" where
  "digit_val c = (let k = of_char c in if 48 \<le> k \<and> k < 58 then Some (k - 48) else None)"

text \<open>Python's \<^verbatim>\<open>str(n)\<close> (and \<^verbatim>\<open>f"{n}"\<close>) for \<open>n \<ge> 0\<close>: the decimal digits,
  most significant first, no leading zero.\<close>

fun dec_str :: "nat \<Rightarrow> py_str" where
  "dec_str n = (if n < 10 then [digit_char n] else dec_str (n div 10) @ [digit_char (n mod 10)])"

declare dec_str.simps [simp del]

text \<open>Zero padding to a minimum width, as the \<^verbatim>\<open>%02d\<close>-style directives do.\<close>

definition zpad :: "nat \<Rightarrow> py_str \<Rightarrow> py_str" where
  "zpad w s = replicate (w - length s) (CHR ''0'') @ s"

text \<open>Reading a digit string back (\<^verbatim>\<open>int(s)\<close> on digits only): the inverse used
  to state the round trips.\<close>

fun read_digits :: "nat \<Rightarrow> py_str \<Rightarrow> nat option" where
  "read_digits acc [] = Some acc"
| "read_digits acc (c # cs) =
     (case digit_val c of None \<Rightarrow> None | Some d \<Rightarrow> read_digits (10 * acc + d) cs)"

definition read_dec :: "py_str \<Rightarrow> nat option" where
  "read_dec s = (if s = [] then None else read_digits 0 s)"

subsection \<open>Digits\<close>

lemma of_char_digit_char [simp]: "d < 10 \<Longrightarrow> of_char (digit_char d) = 48 + d"
proof -
  assume "d < 10"
  then have "d = 0 \<or> d = 1 \<or> d = 2 \<or> d = 3 \<or> d = 4 \<or> d = 5 \<or> d = 6 \<or> d = 7 \<or> d = 8 \<or> d = 9"
    by presburger
  then show ?thesis by (auto simp: digit_char_def)
qed

lemma digit_val_digit_char [simp, digit_simps]: "d < 10 \<Longrightarrow> digit_val (digit_char d) = Some d"
  by (simp add: digit_val_def)

lemma digit_val_zero [simp, digit_simps]: "digit_val (CHR ''0'') = Some 0"
  by (simp add: digit_val_def)

lemma digit_char_inject [simp]:
  "d < 10 \<Longrightarrow> e < 10 \<Longrightarrow> digit_char d = digit_char e \<longleftrightarrow> d = e"
  by (metis digit_val_digit_char option.inject)

lemma digit_val_Some: "digit_val c = Some d \<Longrightarrow> d < 10 \<and> c = digit_char d"
proof -
  assume h: "digit_val c = Some d"
  then have k: "(48::nat) \<le> of_char c" "of_char c < (58::nat)" and d: "d = of_char c - 48"
    by (auto simp: digit_val_def Let_def split: if_splits)
  then have "of_char (digit_char d) = (of_char c :: nat)" by simp
  then have "char_of (of_char (digit_char d) :: nat) = char_of (of_char c :: nat)" by simp
  then have "digit_char d = c" by (simp only: char_of_char)
  moreover have "d < 10" using k d by simp
  ultimately show ?thesis by simp
qed

subsection \<open>\<open>dec_str\<close>\<close>

lemma dec_str_small [simp, digit_simps]: "n < 10 \<Longrightarrow> dec_str n = [digit_char n]"
  by (simp add: dec_str.simps)

lemma dec_str_big: "\<not> n < 10 \<Longrightarrow> dec_str n = dec_str (n div 10) @ [digit_char (n mod 10)]"
  by (simp add: dec_str.simps)

lemma dec_str_nonempty [simp]: "dec_str n \<noteq> []"
  by (cases "n < 10") (simp_all add: dec_str_big)

lemma read_digits_append [simp]:
  "read_digits acc (xs @ ys) = (case read_digits acc xs of None \<Rightarrow> None | Some a \<Rightarrow> read_digits a ys)"
  by (induction acc xs rule: read_digits.induct) (auto split: option.splits)

lemma read_digits_dec_str: "read_digits 0 (dec_str n) = Some n"
proof (induction n rule: dec_str.induct)
  case (1 n)
  show ?case
  proof (cases "n < 10")
    case True
    then show ?thesis by simp
  next
    case False
    with "1.IH" have "read_digits 0 (dec_str (n div 10)) = Some (n div 10)" by simp
    with False show ?thesis by (simp add: dec_str_big)
  qed
qed

lemma read_dec_dec_str [simp, digit_simps]: "read_dec (dec_str n) = Some n"
  by (simp add: read_dec_def read_digits_dec_str)

lemma dec_str_inject [simp]: "dec_str m = dec_str n \<longleftrightarrow> m = n"
  by (metis read_dec_dec_str option.inject)

lemma length_dec_str_le: "n < 10 ^ k \<Longrightarrow> length (dec_str n) \<le> max 1 k"
proof (induction n arbitrary: k rule: dec_str.induct)
  case (1 n)
  show ?case
  proof (cases "n < 10")
    case True
    then show ?thesis by simp
  next
    case False
    then obtain k' where k: "k = Suc k'"
      using "1.prems" by (cases k) auto
    with "1.prems" have "n div 10 < 10 ^ k'"
      by (simp add: div_less_iff_less_mult mult.commute)
    with False "1.IH" have "length (dec_str (n div 10)) \<le> max 1 k'" by simp
    moreover have "1 \<le> k'"
      using False "1.prems" k by (cases k') auto
    ultimately show ?thesis using False k by (simp add: dec_str_big)
  qed
qed

subsection \<open>Zero padding\<close>

lemma length_zpad: "length s \<le> w \<Longrightarrow> length (zpad w s) = w"
  by (simp add: zpad_def)

lemma length_zpad_dec_str [simp, digit_simps]:
  "n < 10 ^ w \<Longrightarrow> 0 < w \<Longrightarrow> length (zpad w (dec_str n)) = w"
  by (metis length_dec_str_le length_zpad max_def not_less_zero less_one not_le)

lemma read_digits_zeros [simp]: "read_digits 0 (replicate k (CHR ''0'')) = Some 0"
  by (induction k) simp_all

lemma read_dec_zpad_dec_str [simp, digit_simps]: "read_dec (zpad w (dec_str n)) = Some n"
  by (simp add: read_dec_def zpad_def read_digits_dec_str)

end
