(* ===== verification/PyFormat.thy ===== *)
theory PyFormat
  imports Prelude
begin

text \<open>
  The Python formatting the script relies on: \<^verbatim>\<open>format(x, '.2f')\<close> in the
  f-strings of lines 41 and 55 (the value correctly rounded to two decimals, ties to
  even, the sign kept), and \<^verbatim>\<open>date.strftime("%Y-%m-%d")\<close> of line 83 that turns
  the picked date into the text stored in the \<^verbatim>\<open>date\<close> column. Python's
  \<^verbatim>\<open>datetime.date\<close> is a record of year, month and day with its validity
  predicate (years 1--9999, the Gregorian leap rule). Floats are read as the exact
  rationals they denote.
  The lemmas show that the formatted date reads back to the date, has the fixed shape
  \<^verbatim>\<open>YYYY-MM-DD\<close>, and that text order of formatted dates is calendar order;
  and that \<open>.2f\<close> prints an amount of whole cents exactly.
\<close>

section \<open>\<^verbatim>\<open>format(x, '.2f')\<close>\<close>

text \<open>Rounding to the nearest integer, ties to the even neighbour, as CPython's
  correctly rounded float formatting does on the exact binary value.\<close>

definition round_half_even :: "rat \<Rightarrow> int" where
  "round_half_even x =
     (let n = \<lfloor>x\<rfloor>; f = x - of_int n in
      if f < 1/2 then n else if 1/2 < f then n + 1 else if even n then n else n + 1)"

definition fmt_2f :: "rat \<Rightarrow> py_str" where
  "fmt_2f x =
     (let c = nat (round_half_even (\<bar>x\<bar> * 100)) in
      (if x < 0 then ''-'' else '''') @ dec_str (c div 100) @ ''.'' @ zpad 2 (dec_str (c mod 100)))"

section \<open>\<^verbatim>\<open>datetime.date\<close> and \<^verbatim>\<open>strftime("%Y-%m-%d")\<close>\<close>

record py_date =
  year :: nat
  month :: nat
  day :: nat

definition is_leap :: "nat \<Rightarrow> bool" where
  "is_leap y = (y mod 4 = 0 \<and> (y mod 100 \<noteq> 0 \<or> y mod 400 = 0))"

definition days_in_month :: "nat \<Rightarrow> nat \<Rightarrow> nat" where
  "days_in_month y m =
     (if m = 2 then (if is_leap y then 29 else 28)
      else if m = 4 \<or> m = 6 \<or> m = 9 \<or> m = 11 then 30 else 31)"

text \<open>The values a \<^verbatim>\<open>datetime.date\<close> can hold (\<^verbatim>\<open>MINYEAR = 1\<close>,
  \<^verbatim>\<open>MAXYEAR = 9999\<close>).\<close>

definition valid_date :: "py_date \<Rightarrow> bool" where
  "valid_date d =
     (1 \<le> year d \<and> year d \<le> 9999 \<and> 1 \<le> month d \<and> month d \<le> 12
      \<and> 1 \<le> day d \<and> day d \<le> days_in_month (year d) (month d))"

text \<open>Python's date comparison: by year, then month, then day.\<close>

definition date_less :: "py_date \<Rightarrow> py_date \<Rightarrow> bool" where
  "date_less a b =
     (year a < year b \<or> (year a = year b \<and> (month a < month b \<or> (month a = month b \<and> day a < day b))))"

definition strftime_ymd :: "py_date \<Rightarrow> py_str" where
  "strftime_ymd d =
     zpad 4 (dec_str (year d)) @ ''-'' @ zpad 2 (dec_str (month d)) @ ''-'' @ zpad 2 (dec_str (day d))"

text \<open>Reading a \<^verbatim>\<open>YYYY-MM-DD\<close> text back (\<^verbatim>\<open>date.fromisoformat\<close> on this
  shape, without the range check).\<close>

definition parse_ymd :: "py_str \<Rightarrow> py_date option" where
  "parse_ymd s =
     (if length s = 10 \<and> s ! 4 = CHR ''-'' \<and> s ! 7 = CHR ''-'' then
        (case (read_dec (take 4 s), read_dec (take 2 (drop 5 s)), read_dec (drop 8 s)) of
           (Some y, Some m, Some d) \<Rightarrow> Some \<lparr>year = y, month = m, day = d\<rparr>
         | _ \<Rightarrow> None)
      else None)"

section \<open>Lemmas\<close>

subsection \<open>Equal-length digit strings compare as their values\<close>

lemma read_digits_acc:
  "read_digits acc xs = map_option (\<lambda>v. acc * 10 ^ length xs + v) (read_digits 0 xs)"
proof (induction xs arbitrary: acc)
  case Nil
  then show ?case by simp
next
  case (Cons c cs)
  show ?case
  proof (cases "digit_val c")
    case None
    then show ?thesis by simp
  next
    case (Some d)
    then show ?thesis
      using Cons.IH [of "10 * acc + d"] Cons.IH [of d]
      by (simp add: option.map_comp o_def algebra_simps)
  qed
qed

lemma read_digits_Cons:
  "read_digits 0 (c # cs) = Some v \<Longrightarrow>
   \<exists>d v'. c = digit_char d \<and> d < 10 \<and> read_digits 0 cs = Some v' \<and> v = d * 10 ^ length cs + v'"
proof -
  assume "read_digits 0 (c # cs) = Some v"
  then obtain d where dv: "digit_val c = Some d" and r: "read_digits d cs = Some v"
    by (auto split: option.splits)
  have "map_option (\<lambda>u. d * 10 ^ length cs + u) (read_digits 0 cs) = Some v"
    using r by (simp only: read_digits_acc [of d cs])
  then obtain v' where "read_digits 0 cs = Some v'" and "v = d * 10 ^ length cs + v'"
    by auto
  with digit_val_Some [OF dv] show ?thesis by blast
qed

lemma read_digits_bound: "read_digits 0 xs = Some v \<Longrightarrow> v < 10 ^ length xs"
proof (induction xs arbitrary: v)
  case Nil
  then show ?case by simp
next
  case (Cons c cs)
  from read_digits_Cons [OF Cons.prems] obtain d v' where
    d: "d < 10" and r: "read_digits 0 cs = Some v'" and v: "v = d * 10 ^ length cs + v'"
    by blast
  from Cons.IH [OF r] have "v' < 10 ^ length cs" .
  with d v have "v < (d + 1) * 10 ^ length cs" by simp
  also have "\<dots> \<le> 10 * 10 ^ length cs" using d by (intro mult_right_mono) simp_all
  finally show ?case by simp
qed

lemma lex_mult_add:
  fixes a b r s p :: nat
  assumes "r < p" and "s < p"
  shows "a * p + r < b * p + s \<longleftrightarrow> a < b \<or> (a = b \<and> r < s)"
proof
  assume lt: "a * p + r < b * p + s"
  show "a < b \<or> (a = b \<and> r < s)"
  proof (rule ccontr)
    assume "\<not> (a < b \<or> (a = b \<and> r < s))"
    then have "b < a \<or> (a = b \<and> s \<le> r)" by auto
    then show False
    proof
      assume "b < a"
      then have "(b + 1) * p \<le> a * p" by (intro mult_right_mono) simp_all
      with assms lt show False by (simp add: algebra_simps)
    next
      assume "a = b \<and> s \<le> r"
      with lt show False by simp
    qed
  qed
next
  assume "a < b \<or> (a = b \<and> r < s)"
  then show "a * p + r < b * p + s"
  proof
    assume "a < b"
    then have "(a + 1) * p \<le> b * p" by (intro mult_right_mono) simp_all
    with assms show ?thesis by (simp add: algebra_simps)
  qed simp
qed

lemma digit_char_less [simp]:
  "d < 10 \<Longrightarrow> e < 10 \<Longrightarrow> digit_char d < digit_char e \<longleftrightarrow> d < e"
  by (simp add: less_char_def)

lemma digits_less_iff:
  "length xs = length ys \<Longrightarrow> read_digits 0 xs = Some a \<Longrightarrow> read_digits 0 ys = Some b \<Longrightarrow>
   xs < ys \<longleftrightarrow> a < b"
proof (induction xs arbitrary: ys a b)
  case Nil
  then show ?case by simp
next
  case (Cons x xs)
  then obtain y ys' where ys: "ys = y # ys'" by (cases ys) auto
  from read_digits_Cons [OF Cons.prems(2)] obtain dx a' where
    x: "x = digit_char dx" "dx < 10" and a: "read_digits 0 xs = Some a'" "a = dx * 10 ^ length xs + a'"
    by blast
  from read_digits_Cons [OF Cons.prems(3)[unfolded ys]] obtain dy b' where
    y: "y = digit_char dy" "dy < 10" and b: "read_digits 0 ys' = Some b'" "b = dy * 10 ^ length ys' + b'"
    by blast
  have len: "length xs = length ys'" using Cons.prems(1) ys by simp
  have "a' < 10 ^ length xs" and "b' < 10 ^ length xs"
    using read_digits_bound [OF a(1)] read_digits_bound [OF b(1)] len by simp_all
  then have "a < b \<longleftrightarrow> dx < dy \<or> (dx = dy \<and> a' < b')"
    using a(2) b(2) len lex_mult_add by simp
  moreover have "xs < ys' \<longleftrightarrow> a' < b'"
    by (rule Cons.IH [OF len a(1) b(1)])
  ultimately show ?case
    using x y ys by auto
qed

lemma zpad_dec_str_less:
  assumes "n < 10 ^ w" and "m < 10 ^ w" and "0 < w"
  shows "zpad w (dec_str n) < zpad w (dec_str m) \<longleftrightarrow> n < m"
proof (rule digits_less_iff)
  show "length (zpad w (dec_str n)) = length (zpad w (dec_str m))"
    using assms by simp
  show "read_digits 0 (zpad w (dec_str n)) = Some n"
    using read_dec_zpad_dec_str [of w n] by (simp add: read_dec_def split: if_splits)
  show "read_digits 0 (zpad w (dec_str m)) = Some m"
    using read_dec_zpad_dec_str [of w m] by (simp add: read_dec_def split: if_splits)
qed

lemma zpad_dec_str_inject [simp]: "zpad w (dec_str n) = zpad w (dec_str m) \<longleftrightarrow> n = m"
  by (metis read_dec_zpad_dec_str option.inject)

lemma append_less_append:
  "length xs = length xs' \<Longrightarrow> xs @ ys < xs' @ ys' \<longleftrightarrow> xs < xs' \<or> (xs = xs' \<and> ys < ys')"
  by (induction xs xs' rule: list_induct2) auto

lemma days_in_month_le: "days_in_month y m \<le> 31"
  by (simp add: days_in_month_def)

lemma valid_date_bounds:
  "valid_date d \<Longrightarrow> year d < 10 ^ 4 \<and> month d < 10 ^ 2 \<and> day d < 10 ^ 2"
  using days_in_month_le [of "year d" "month d"] by (simp add: valid_date_def)

lemma round_half_even_of_int [simp]: "round_half_even (of_int n) = n"
  by (simp add: round_half_even_def)

lemma fmt_2f_of_cents:
  assumes "0 \<le> c"
  shows "fmt_2f (of_int c / 100) = dec_str (nat c div 100) @ ''.'' @ zpad 2 (dec_str (nat c mod 100))"
proof -
  have "\<bar>(of_int c :: rat) / 100\<bar> * 100 = of_int c"
    using assms by simp
  with assms show ?thesis
    by (simp add: fmt_2f_def Let_def)
qed

lemma strftime_pieces:
  "valid_date d \<Longrightarrow> length (zpad 4 (dec_str (year d))) = 4 \<and> length (zpad 2 (dec_str (month d))) = 2
                    \<and> length (zpad 2 (dec_str (day d))) = 2"
  using valid_date_bounds [of d] by simp

lemma strftime_parse: "valid_date d \<Longrightarrow> parse_ymd (strftime_ymd d) = Some d"
  using strftime_pieces [of d] by (simp add: strftime_ymd_def parse_ymd_def nth_append)

subsection \<open>Properties of the formatting\<close>

text \<open>C22. Round trip: \<^verbatim>\<open>strftime("%Y-%m-%d")\<close> of any valid date is ten
  characters long and reads back to the same date (so distinct dates are stored as
  distinct texts).\<close>

theorem strftime_roundtrip:
  assumes "valid_date d"
  shows "length (strftime_ymd d) = 10 \<and> strftime_ymd d ! 4 = CHR ''-'' \<and> strftime_ymd d ! 7 = CHR ''-''
         \<and> parse_ymd (strftime_ymd d) = Some d"
proof -
  from strftime_pieces [OF assms] have "length (strftime_ymd d) = 10"
    and "strftime_ymd d ! 4 = CHR ''-''" and "strftime_ymd d ! 7 = CHR ''-''"
    by (simp_all add: strftime_ymd_def nth_append)
  with strftime_parse [OF assms] show ?thesis by simp
qed

theorem strftime_roundtrip_witness:
  "valid_date \<lparr>year = 2025, month = 3, day = 1\<rparr>
   \<and> strftime_ymd \<lparr>year = 2025, month = 3, day = 1\<rparr> = ''2025-03-01''
   \<and> length (strftime_ymd \<lparr>year = 2025, month = 3, day = 1\<rparr>) = 10
   \<and> strftime_ymd \<lparr>year = 2025, month = 3, day = 1\<rparr> ! 4 = CHR ''-''
   \<and> strftime_ymd \<lparr>year = 2025, month = 3, day = 1\<rparr> ! 7 = CHR ''-''
   \<and> parse_ymd (strftime_ymd \<lparr>year = 2025, month = 3, day = 1\<rparr>) = Some \<lparr>year = 2025, month = 3, day = 1\<rparr>"
proof -
  have v: "valid_date \<lparr>year = 2025, month = 3, day = 1\<rparr>"
    by (simp add: valid_date_def days_in_month_def)
  have s: "strftime_ymd \<lparr>year = 2025, month = 3, day = 1\<rparr> = ''2025-03-01''"
    by (simp add: strftime_ymd_def zpad_def dec_str.simps digit_char_def)
  from v s strftime_roundtrip [OF v] show ?thesis by simp
qed

text \<open>C23. The \<^verbatim>\<open>date\<close> column sorts chronologically: for valid dates, the
  lexicographic order of the stored texts (SQLite's \<^verbatim>\<open>BINARY\<close> collation) is the
  calendar order of the dates.\<close>

theorem strftime_order:
  assumes "valid_date a" and "valid_date b"
  shows "strftime_ymd a < strftime_ymd b \<longleftrightarrow> date_less a b"
proof -
  from valid_date_bounds [OF assms(1)] valid_date_bounds [OF assms(2)]
  have ya: "year a < 10 ^ 4" and yb: "year b < 10 ^ 4"
    and ma: "month a < 10 ^ 2" and mb: "month b < 10 ^ 2"
    and da: "day a < 10 ^ 2" and db: "day b < 10 ^ 2"
    by simp_all
  then show ?thesis
    by (simp add: strftime_ymd_def date_less_def append_less_append zpad_dec_str_less)
qed

theorem strftime_order_witness:
  "valid_date \<lparr>year = 2025, month = 3, day = 1\<rparr> \<and> valid_date \<lparr>year = 2025, month = 10, day = 1\<rparr>
   \<and> (strftime_ymd \<lparr>year = 2025, month = 3, day = 1\<rparr> < strftime_ymd \<lparr>year = 2025, month = 10, day = 1\<rparr>
      \<longleftrightarrow> date_less \<lparr>year = 2025, month = 3, day = 1\<rparr> \<lparr>year = 2025, month = 10, day = 1\<rparr>)"
proof -
  have a: "valid_date \<lparr>year = 2025, month = 3, day = 1\<rparr>"
    and b: "valid_date \<lparr>year = 2025, month = 10, day = 1\<rparr>"
    by (simp_all add: valid_date_def days_in_month_def)
  from a b strftime_order [OF a b] show ?thesis by simp
qed



end
