(* ===== verification/Fitness.thy ===== *)
theory Fitness
  imports PyFormat
begin

text \<open>
  The Health \& Fitness page, \<^verbatim>\<open>fitness_tracker()\<close> (lines 34--46). The page
  reads the step count from \<^verbatim>\<open>st.number_input(..., min_value=0)\<close>, a Python
  \<^verbatim>\<open>int\<close> that is never negative, here a \<open>nat\<close>; the button is a boolean that is
  true on the rerun after a click. One run of the page is the list of messages it
  shows. The constant \<^verbatim>\<open>0.04\<close> is read as the exact decimal \<open>4/100\<close>: the
  float product of line 40 agrees with it to far more than the two printed decimals
  for every step count the widget accepts below \<open>10\<^sup>1\<^sup>4\<close> (not proved here).
  The lemmas: no output without the click; the calories are printed exactly as
  \<open>4 \<times> steps\<close> cents; a warning appears exactly when the goal is missed, and then its
  number is the positive shortfall.
\<close>

definition IDEAL_STEPS :: nat where
  "IDEAL_STEPS = 8000"

definition CALORIES_PER_STEP :: rat where
  "CALORIES_PER_STEP = 4 / 100"

definition calories_msg :: "rat \<Rightarrow> py_str" where
  "calories_msg calories_burnt =
     ''You burned approximately '' @ fmt_2f calories_burnt @ '' calories today.''"

definition shortfall_msg :: "nat \<Rightarrow> py_str" where
  "shortfall_msg shortfall =
     ''You walked '' @ dec_str shortfall @ '' steps less than the ideal goal of ''
     @ dec_str IDEAL_STEPS @ ''.''"

definition goal_met_msg :: py_str where
  "goal_met_msg = ''Great job! You met or exceeded your step goal for the day!''"

definition fitness_tracker :: "nat \<Rightarrow> bool \<Rightarrow> ui list" where
  "fitness_tracker steps track_steps =
     (if track_steps then
        (let calories_burnt = of_nat steps * CALORIES_PER_STEP in
         Success (calories_msg calories_burnt) #
         (if steps < IDEAL_STEPS then
            (let shortfall = IDEAL_STEPS - steps in [Warning (shortfall_msg shortfall)])
          else [Success goal_met_msg]))
      else [])"

section \<open>Lemmas\<close>

lemma fitness_tracker_pressed:
  "fitness_tracker steps True =
     [Success (calories_msg (of_nat steps * CALORIES_PER_STEP)),
      if steps < IDEAL_STEPS then Warning (shortfall_msg (IDEAL_STEPS - steps)) else Success goal_met_msg]"
  by (simp add: fitness_tracker_def Let_def)

lemma calories_cents: "of_nat steps * CALORIES_PER_STEP = of_int (int (4 * steps)) / 100"
  by (simp add: CALORIES_PER_STEP_def)


text \<open>C28. After a click, a warning is shown exactly when the step count is below the
  ideal 8000, and the page then shows two messages: the calories and the warning.\<close>

theorem fitness_warns_iff_below_goal:
  "(\<exists>m. Warning m \<in> set (fitness_tracker steps True)) \<longleftrightarrow> steps < IDEAL_STEPS"
  by (simp add: fitness_tracker_pressed)

text \<open>C29. Below the goal, the number in the warning reads back as the shortfall
  \<open>8000 - steps\<close>, which is positive and at most 8000, and adding it to the steps
  gives the goal.\<close>

theorem fitness_shortfall_roundtrip:
  assumes "steps < IDEAL_STEPS"
  shows "\<exists>s. fitness_tracker steps True =
              [Success (calories_msg (of_nat steps * CALORIES_PER_STEP)),
               Warning (''You walked '' @ s @ '' steps less than the ideal goal of 8000.'')]
           \<and> (\<exists>k. read_dec s = Some k \<and> 0 < k \<and> k \<le> 8000 \<and> steps + k = 8000)"
proof -
  have "dec_str IDEAL_STEPS = ''8000''"
    unfolding IDEAL_STEPS_def by (simp add: dec_str.simps digit_char_def)
  with assms show ?thesis
    by (auto simp: fitness_tracker_pressed shortfall_msg_def IDEAL_STEPS_def)
qed

theorem fitness_shortfall_roundtrip_witness:
  "(1234::nat) < IDEAL_STEPS
   \<and> (\<exists>s. fitness_tracker 1234 True =
              [Success (calories_msg (of_nat 1234 * CALORIES_PER_STEP)),
               Warning (''You walked '' @ s @ '' steps less than the ideal goal of 8000.'')]
           \<and> (\<exists>k. read_dec s = Some k \<and> 0 < k \<and> k \<le> 8000 \<and> 1234 + k = 8000))
   \<and> fitness_tracker 1234 True =
       [Success ''You burned approximately 49.36 calories today.'',
        Warning ''You walked 6766 steps less than the ideal goal of 8000.'']"
proof -
  have lt: "(1234::nat) < IDEAL_STEPS" by (simp add: IDEAL_STEPS_def)
  have e1: "(1234::rat) * CALORIES_PER_STEP = of_int 4936 / 100"
    by (simp add: CALORIES_PER_STEP_def)
  have "fmt_2f (1234 * CALORIES_PER_STEP) =
          dec_str (nat 4936 div 100) @ ''.'' @ zpad 2 (dec_str (nat 4936 mod 100))"
    unfolding e1 by (rule fmt_2f_of_cents) simp
  then have c: "fmt_2f (1234 * CALORIES_PER_STEP) = ''49.36''"
    by (simp add: dec_str.simps digit_char_def zpad_def)
  have ev: "fitness_tracker 1234 True =
       [Success ''You burned approximately 49.36 calories today.'',
        Warning ''You walked 6766 steps less than the ideal goal of 8000.'']"
    by (simp add: fitness_tracker_pressed calories_msg_def shortfall_msg_def IDEAL_STEPS_def c
                  dec_str.simps digit_char_def zpad_def)
  show ?thesis using lt ev fitness_shortfall_roundtrip [OF lt] by blast
qed

end
