(* ===== verification/Wellness.thy ===== *)
theory Wellness
  imports PyFormat
begin

text \<open>
  The Mental Wellness page, \<^verbatim>\<open>mental_wellness()\<close> (lines 49--63), and the label
  table \<^verbatim>\<open>label_map\<close> (lines 12--16). The sentiment pipeline of line 11 is a
  pretrained model and is not modelled: the page is defined for an arbitrary
  classifier, a function from the input text to the list of predictions the pipeline
  returns (a label and a confidence score each), so every lemma holds whatever the
  model answers. The advice strings end in the bytes of the source file, whose
  emoji are stored doubly encoded; they are written here as those UTF-8 bytes.
  The lemmas: an empty entry is refused without consulting the model; the advice
  follows the label (negative, neutral, positive); a label outside the table is
  shown as \<^verbatim>\<open>Unknown\<close> but receives the positive advice; an empty prediction
  list raises \<^verbatim>\<open>IndexError\<close>.
\<close>

record prediction =
  label :: py_str
  score :: rat

type_synonym classifier = "py_str \<Rightarrow> prediction list"

definition label_map :: "py_str \<rightharpoonup> py_str" where
  "label_map = [''LABEL_0'' \<mapsto> ''Negative'', ''LABEL_1'' \<mapsto> ''Neutral'', ''LABEL_2'' \<mapsto> ''Positive'']"

definition negative_advice :: py_str where
  "negative_advice = ''Consider taking a break, talking to a friend, or going for a walk. ''
     @ [CHR 0xC3, CHR 0xB0, CHR 0xC5, CHR 0xB8, CHR 0xE2, CHR 0x80, CHR 0x99, CHR 0xE2, CHR 0x80, CHR 0xBA]"

definition neutral_advice :: py_str where
  "neutral_advice = ''You're feeling neutral. Try something uplifting like music or a hobby. ''
     @ [CHR 0xC3, CHR 0xB0, CHR 0xC5, CHR 0xB8, CHR 0xCB, CHR 0x9C, CHR 0xC5, CHR 0xA0]"

definition positive_advice :: py_str where
  "positive_advice = ''Glad to hear you're feeling positive! Keep it up! ''
     @ [CHR 0xC3, CHR 0xB0, CHR 0xC5, CHR 0xB8, CHR 0xC5, CHR 0x92, CHR 0xC5, CHR 0xB8]"

definition empty_mood_msg :: py_str where
  "empty_mood_msg = ''Please enter your mood to analyze.''"

definition mood_msg :: "py_str \<Rightarrow> rat \<Rightarrow> py_str" where
  "mood_msg sentiment confidence =
     ''**Mood detected:** '' @ sentiment @ '' (Confidence: '' @ fmt_2f confidence @ '')''"

definition mental_wellness :: "classifier \<Rightarrow> py_str \<Rightarrow> bool \<Rightarrow> ui list" where
  "mental_wellness sentiment_model user_input check_mood =
     (if check_mood then
        (if user_input \<noteq> [] then
           (case sentiment_model user_input of
              [] \<Rightarrow> [Traceback IndexError]
            | result # _ \<Rightarrow>
                (let sentiment = dict_get label_map (label result) ''Unknown'' in
                 [Write (mood_msg sentiment (score result)),
                  if sentiment = ''Negative'' then Warning negative_advice
                  else if sentiment = ''Neutral'' then Info neutral_advice
                  else Success positive_advice]))
         else [Error empty_mood_msg])
      else [])"

section \<open>Lemmas\<close>

lemma sentiment_of_label:
  "dict_get label_map l ''Unknown'' =
     (if l = ''LABEL_0'' then ''Negative'' else if l = ''LABEL_1'' then ''Neutral''
      else if l = ''LABEL_2'' then ''Positive'' else ''Unknown'')"
  by (simp add: dict_get_def label_map_def)

lemma mental_wellness_predicted:
  assumes "user_input \<noteq> []" and "sentiment_model user_input = result # rest"
  shows "mental_wellness sentiment_model user_input True =
     [Write (mood_msg (dict_get label_map (label result) ''Unknown'') (score result)),
      if label result = ''LABEL_0'' then Warning negative_advice
      else if label result = ''LABEL_1'' then Info neutral_advice
      else Success positive_advice]"
  using assms by (simp add: mental_wellness_def sentiment_of_label Let_def)

text \<open>C26. Without a click nothing is shown; with a click on an empty entry the page
  shows only the error \<^verbatim>\<open>Please enter your mood to analyze.\<close>, whatever the model
  would answer: the model is not consulted.\<close>

theorem wellness_empty_input:
  "mental_wellness sentiment_model user_input False = []
   \<and> mental_wellness sentiment_model [] True = [Error empty_mood_msg]"
  by (simp add: mental_wellness_def)

text \<open>C24. For a non-empty entry with a prediction, the page shows the detected mood and
  exactly one piece of advice, chosen by the label: a warning for \<^verbatim>\<open>LABEL_0\<close>
  (Negative), an info box for \<^verbatim>\<open>LABEL_1\<close> (Neutral), the positive message for
  \<^verbatim>\<open>LABEL_2\<close> (Positive).\<close>

theorem wellness_advice_by_label:
  assumes "user_input \<noteq> []" and "sentiment_model user_input = result # rest"
    and "label result \<in> {''LABEL_0'', ''LABEL_1'', ''LABEL_2''}"
  shows "\<exists>sentiment advice.
           mental_wellness sentiment_model user_input True =
             [Write (mood_msg sentiment (score result)), advice]
         \<and> (label result = ''LABEL_0'' \<longrightarrow> sentiment = ''Negative'' \<and> advice = Warning negative_advice)
         \<and> (label result = ''LABEL_1'' \<longrightarrow> sentiment = ''Neutral'' \<and> advice = Info neutral_advice)
         \<and> (label result = ''LABEL_2'' \<longrightarrow> sentiment = ''Positive'' \<and> advice = Success positive_advice)"
  using assms by (auto simp: mental_wellness_predicted sentiment_of_label)

theorem wellness_advice_by_label_witness:
  "''I feel great'' \<noteq> []
   \<and> (\<exists>sentiment advice.
        mental_wellness (\<lambda>_. [\<lparr>label = ''LABEL_2'', score = 97/100\<rparr>]) ''I feel great'' True =
          [Write (mood_msg sentiment (97/100)), advice]
      \<and> sentiment = ''Positive'' \<and> advice = Success positive_advice)"
proof -
  let ?r = "\<lparr>label = ''LABEL_2'', score = 97/100 :: rat\<rparr>"
  have h1: "''I feel great'' \<noteq> []" by simp
  have h2: "(\<lambda>_. [?r]) ''I feel great'' = ?r # []" by simp
  have h3: "label ?r \<in> {''LABEL_0'', ''LABEL_1'', ''LABEL_2''}" by simp
  from wellness_advice_by_label [OF h1 h2 h3] obtain sentiment advice where
    m: "mental_wellness (\<lambda>_. [?r]) ''I feel great'' True = [Write (mood_msg sentiment (score ?r)), advice]"
    and p: "label ?r = ''LABEL_2'' \<longrightarrow> sentiment = ''Positive'' \<and> advice = Success positive_advice"
    by blast
  have s: "sentiment = ''Positive''" and a: "advice = Success positive_advice"
    using p by simp_all
  have sc: "score ?r = 97/100" by simp
  show ?thesis
    using h1 m s a unfolding sc by blast
qed

text \<open>C25. A label outside \<^verbatim>\<open>label_map\<close> is reported as \<^verbatim>\<open>Unknown\<close>, and then
  falls through to the \<^verbatim>\<open>else\<close> branch: the page tells the user it is glad they
  feel positive.\<close>

theorem wellness_unknown_label_positive:
  assumes "user_input \<noteq> []" and "sentiment_model user_input = result # rest"
    and "label result \<notin> {''LABEL_0'', ''LABEL_1'', ''LABEL_2''}"
  shows "mental_wellness sentiment_model user_input True =
           [Write (mood_msg ''Unknown'' (score result)), Success positive_advice]"
  using assms by (simp add: mental_wellness_predicted sentiment_of_label)

theorem wellness_unknown_label_positive_witness:
  "''meh'' \<noteq> []
   \<and> (\<lambda>_. [\<lparr>label = ''negative'', score = 9/10\<rparr>]) ''meh'' = \<lparr>label = ''negative'', score = 9/10\<rparr> # []
   \<and> label \<lparr>label = ''negative'', score = 9/10\<rparr> \<notin> {''LABEL_0'', ''LABEL_1'', ''LABEL_2''}
   \<and> mental_wellness (\<lambda>_. [\<lparr>label = ''negative'', score = 9/10\<rparr>]) ''meh'' True =
       [Write (mood_msg ''Unknown'' (9/10)), Success positive_advice]"
  using wellness_unknown_label_positive [of "''meh''" "\<lambda>_. [\<lparr>label = ''negative'', score = 9/10\<rparr>]"
      "\<lparr>label = ''negative'', score = 9/10\<rparr>" "[]"]
  by simp



end
