(* ===== verification/EventStore.thy ===== *)
theory EventStore
  imports Prelude
begin

text \<open>
  The event store of \<^verbatim>\<open>src/ai_coach_dashboard.py\<close>: the SQLite file
  \<^verbatim>\<open>events.db\<close> with its one table \<^verbatim>\<open>events\<close>, created by \<^verbatim>\<open>init_db\<close>
  (lines 19--29) and appended to by \<^verbatim>\<open>save_event\<close> (lines 66--72).
  The file is a record \<open>db\<close>: the table (absent until created) as the list of its
  rows in rowid order, and the \<^verbatim>\<open>sqlite_sequence\<close> entry that
  \<^verbatim>\<open>AUTOINCREMENT\<close> keeps for it. The environment of an operation is a record
  \<open>storage\<close>: the file (absent before the first connection), whether it can be
  opened, and the number of connections opened and never closed. Every operation is
  a function \<open>storage \<Rightarrow> (py_exc + 'a) \<times> storage\<close>: an exception is an
  \<open>Inl\<close> together with the state the program leaves behind.
  The read operation \<open>list_events\<close> is not in the source; it is the one the
  specification requires (\<^verbatim>\<open>SELECT ... ORDER BY id\<close>).
\<close>

section \<open>State\<close>

record event_row =
  row_id :: int
  row_date :: py_str
  row_name :: py_str
  row_event_type :: py_str
  row_reminder :: int

record db =
  events_tbl :: "event_row list option"
  seq :: int

record storage =
  db_file :: "db option"
  available :: bool
  open_conns :: nat

type_synonym 'a db_op = "storage \<Rightarrow> (py_exc + 'a) \<times> storage"

text \<open>The largest rowid SQLite hands out (a signed 64-bit integer).\<close>

definition max_rowid :: int where
  "max_rowid = 2 ^ 63 - 1"

definition empty_db :: db where
  "empty_db = \<lparr>events_tbl = None, seq = 0\<rparr>"

section \<open>SQLite primitives\<close>

text \<open>\<^verbatim>\<open>sqlite3.connect("events.db")\<close>: opens the file, creating an empty database
  when it does not exist.\<close>

definition connect :: "storage \<Rightarrow> py_exc + db" where
  "connect st =
     (if available st then Inr (case db_file st of None \<Rightarrow> empty_db | Some d \<Rightarrow> d)
      else Inl (OperationalError Unable_to_open))"

text \<open>\<^verbatim>\<open>CREATE TABLE IF NOT EXISTS events (...)\<close>: nothing happens when the table
  exists.\<close>

definition create_events_table :: "db \<Rightarrow> db" where
  "create_events_table d =
     (case events_tbl d of None \<Rightarrow> d\<lparr>events_tbl := Some []\<rparr> | Some _ \<Rightarrow> d)"

definition max_id :: "event_row list \<Rightarrow> int" where
  "max_id rows = fold max (map row_id rows) 0"

text \<open>\<^verbatim>\<open>INSERT INTO events (date, name, event_type, reminder) VALUES (?, ?, ?, ?)\<close>
  on an \<^verbatim>\<open>INTEGER PRIMARY KEY AUTOINCREMENT\<close> table: the new rowid is one more
  than the larger of the largest rowid ever used (\<^verbatim>\<open>sqlite_sequence\<close>) and the
  largest present; past the largest rowid the insert fails with \<^verbatim>\<open>SQLITE_FULL\<close>.
  The values are stored as given: no check of the type or the range.\<close>

definition insert_event :: "py_str \<Rightarrow> py_str \<Rightarrow> py_str \<Rightarrow> int \<Rightarrow> db \<Rightarrow> py_exc + db" where
  "insert_event date name etype reminder d =
     (case events_tbl d of
        None \<Rightarrow> Inl (OperationalError No_such_table)
      | Some rows \<Rightarrow>
          (let nid = max (seq d) (max_id rows) + 1 in
           if max_rowid < nid then Inl (OperationalError Database_full)
           else Inr (d\<lparr>events_tbl := Some (rows @ [\<lparr>row_id = nid, row_date = date,
                       row_name = name, row_event_type = etype, row_reminder = reminder\<rparr>]),
                      seq := nid\<rparr>)))"

section \<open>The operations of the source\<close>

text \<open>\<^verbatim>\<open>init_db()\<close>: connect, create the table if absent, commit, close.\<close>

definition init_db :: "unit db_op" where
  "init_db st =
     (case connect st of
        Inl e \<Rightarrow> (Inl e, st)
      | Inr d \<Rightarrow> (Inr (), st\<lparr>db_file := Some (create_events_table d)\<rparr>))"

text \<open>\<^verbatim>\<open>save_event(event_date, name, event_type, reminder)\<close>: connect, insert,
  commit, close; it returns \<^verbatim>\<open>None\<close>. When the insert raises, lines 71--72 are
  skipped: nothing is committed and the connection is never closed.\<close>

definition save_event :: "py_str \<Rightarrow> py_str \<Rightarrow> py_str \<Rightarrow> int \<Rightarrow> unit db_op" where
  "save_event event_date name event_type reminder st =
     (case connect st of
        Inl e \<Rightarrow> (Inl e, st)
      | Inr d \<Rightarrow>
          (case insert_event event_date name event_type reminder d of
             Inl e \<Rightarrow> (Inl e, st\<lparr>open_conns := Suc (open_conns st)\<rparr>)
           | Inr d' \<Rightarrow> (Inr (), st\<lparr>db_file := Some d'\<rparr>)))"

text \<open>The read the specification requires: every row, ordered by \<^verbatim>\<open>id\<close>, on a
  connection that is always released.\<close>

definition list_events :: "event_row list db_op" where
  "list_events st =
     (case connect st of
        Inl e \<Rightarrow> (Inl e, st)
      | Inr d \<Rightarrow>
          (case events_tbl d of
             None \<Rightarrow> (Inl (OperationalError No_such_table), st)
           | Some rows \<Rightarrow> (Inr (sort_key row_id rows), st)))"

section \<open>Abstraction and invariant\<close>

text \<open>The rows the file holds, if the table exists.\<close>

definition table_of :: "storage \<Rightarrow> event_row list option" where
  "table_of st = (case db_file st of None \<Rightarrow> None | Some d \<Rightarrow> events_tbl d)"

text \<open>The row \<open>save_event\<close> adds under the identity \<open>i\<close>.\<close>

definition new_row :: "int \<Rightarrow> py_str \<Rightarrow> py_str \<Rightarrow> py_str \<Rightarrow> int \<Rightarrow> event_row" where
  "new_row i date name etype reminder =
     \<lparr>row_id = i, row_date = date, row_name = name, row_event_type = etype, row_reminder = reminder\<rparr>"

text \<open>A well-formed file: the identities are \<open>1, 2, \<dots>, n\<close> in row order, the
  sequence records \<open>n\<close>, and \<open>n\<close> is a valid rowid.\<close>

definition wf_db :: "db \<Rightarrow> bool" where
  "wf_db d =
     (case events_tbl d of
        None \<Rightarrow> seq d = 0
      | Some rows \<Rightarrow> map row_id rows = [1..int (length rows)] \<and> seq d = int (length rows)
                     \<and> int (length rows) \<le> max_rowid)"

definition wf_storage :: "storage \<Rightarrow> bool" where
  "wf_storage st = (case db_file st of None \<Rightarrow> True | Some d \<Rightarrow> wf_db d)"

section \<open>Lemmas\<close>

subsection \<open>Characteristic equations\<close>

lemma connect_Inr [store_simps]:
  "available st \<Longrightarrow> connect st = Inr (case db_file st of None \<Rightarrow> empty_db | Some d \<Rightarrow> d)"
  by (simp add: connect_def)

lemma connect_Inl [store_simps]:
  "\<not> available st \<Longrightarrow> connect st = Inl (OperationalError Unable_to_open)"
  by (simp add: connect_def)

lemma max_id_upto:
  assumes "map row_id rows = [1..int (length rows)]"
  shows "max_id rows = int (length rows)"
proof -
  have "max_id rows = Max (insert 0 (set (map row_id rows)))"
    by (simp add: max_id_def Max.set_eq_fold [symmetric])
  also have "\<dots> = Max (insert 0 {1..int (length rows)})"
    using assms by simp
  also have "\<dots> = int (length rows)"
    by (rule Max_eqI) (auto simp: Suc_le_eq)
  finally show ?thesis .
qed

lemma insert_event_wf_eq [store_simps]:
  assumes "wf_db d" and "events_tbl d = Some rows"
  shows "insert_event date name etype reminder d =
    (if max_rowid \<le> int (length rows) then Inl (OperationalError Database_full)
     else Inr \<lparr>events_tbl = Some (rows @ [new_row (int (length rows) + 1) date name etype reminder]),
               seq = int (length rows) + 1\<rparr>)"
  using assms max_id_upto [of rows]
  by (simp add: insert_event_def wf_db_def new_row_def Let_def)

lemma wf_db_empty [simp]: "wf_db empty_db"
  by (simp add: wf_db_def empty_db_def)

lemma wf_connect: "wf_storage st \<Longrightarrow> connect st = Inr d \<Longrightarrow> wf_db d"
  by (auto simp: connect_def wf_storage_def split: if_splits option.splits)

lemma wf_create_events_table: "wf_db d \<Longrightarrow> wf_db (create_events_table d)"
  by (simp add: create_events_table_def wf_db_def max_rowid_def split: option.splits)

lemma wf_db_snoc:
  assumes "map row_id rows = [1..int (length rows)]" and "int (length rows) < max_rowid"
  shows "wf_db \<lparr>events_tbl = Some (rows @ [new_row (int (length rows) + 1) date name etype reminder]),
                seq = int (length rows) + 1\<rparr>"
proof -
  have "[1..int (length rows) + 1] = [1..int (length rows)] @ [int (length rows) + 1]"
    using upto_rec2 [of 1 "int (length rows) + 1"] by simp
  with assms show ?thesis by (simp add: wf_db_def new_row_def ac_simps)
qed

lemma wf_insert_event: "wf_db d \<Longrightarrow> insert_event date name etype reminder d = Inr d' \<Longrightarrow> wf_db d'"
proof -
  assume wf: "wf_db d" and ins: "insert_event date name etype reminder d = Inr d'"
  then obtain rows where rows: "events_tbl d = Some rows"
    by (cases "events_tbl d") (auto simp: insert_event_def)
  with wf ins have "\<not> max_rowid \<le> int (length rows)"
    and d': "d' = \<lparr>events_tbl = Some (rows @ [new_row (int (length rows) + 1) date name etype reminder]),
                    seq = int (length rows) + 1\<rparr>"
    by (simp_all add: insert_event_wf_eq split: if_splits)
  moreover from wf rows have "map row_id rows = [1..int (length rows)]"
    by (simp add: wf_db_def)
  ultimately show "wf_db d'"
    by (simp add: wf_db_snoc)
qed

lemma table_of_upd [simp]:
  "table_of (st\<lparr>db_file := Some d\<rparr>) = events_tbl d"
  "table_of (st\<lparr>open_conns := n\<rparr>) = table_of st"
  "table_of (st\<lparr>available := b\<rparr>) = table_of st"
  by (simp_all add: table_of_def)

lemma wf_storage_upd [simp]:
  "wf_storage (st\<lparr>db_file := Some d\<rparr>) = wf_db d"
  "wf_storage (st\<lparr>open_conns := n\<rparr>) = wf_storage st"
  "wf_storage (st\<lparr>available := b\<rparr>) = wf_storage st"
  by (simp_all add: wf_storage_def)

lemma connected_db:
  assumes "available st"
  obtains d where "connect st = Inr d" and "events_tbl d = table_of st"
    and "wf_storage st \<Longrightarrow> wf_db d"
proof -
  let ?d = "case db_file st of None \<Rightarrow> empty_db | Some d \<Rightarrow> d"
  have "connect st = Inr ?d"
    using assms by (simp add: connect_def)
  moreover have "events_tbl ?d = table_of st"
    by (simp add: table_of_def empty_db_def split: option.splits)
  moreover have "wf_storage st \<Longrightarrow> wf_db ?d"
    by (simp add: wf_storage_def split: option.splits)
  ultimately show ?thesis by (rule that)
qed

subsection \<open>\<open>init_db\<close>\<close>

lemma init_db_unavailable [store_simps]:
  "\<not> available st \<Longrightarrow> init_db st = (Inl (OperationalError Unable_to_open), st)"
  by (simp add: init_db_def connect_def)

lemma init_db_ok:
  assumes "available st"
  shows "\<exists>d. init_db st = (Inr (), st\<lparr>db_file := Some d\<rparr>)
             \<and> events_tbl d = Some (case table_of st of None \<Rightarrow> [] | Some rows \<Rightarrow> rows)
             \<and> (wf_storage st \<longrightarrow> wf_db d)"
proof -
  from assms obtain d where c: "connect st = Inr d" and t: "events_tbl d = table_of st"
    and w: "wf_storage st \<Longrightarrow> wf_db d"
    by (rule connected_db) auto
  have "init_db st = (Inr (), st\<lparr>db_file := Some (create_events_table d)\<rparr>)"
    using c by (simp add: init_db_def)
  moreover have "events_tbl (create_events_table d) =
      Some (case table_of st of None \<Rightarrow> [] | Some rows \<Rightarrow> rows)"
    using t by (simp add: create_events_table_def split: option.splits)
  moreover have "wf_storage st \<longrightarrow> wf_db (create_events_table d)"
    using w wf_create_events_table by blast
  ultimately show ?thesis by blast
qed

lemma wf_init_db: "wf_storage st \<Longrightarrow> wf_storage (snd (init_db st))"
  by (cases "available st") (auto simp: init_db_unavailable dest: init_db_ok)

subsection \<open>\<open>save_event\<close>\<close>

lemma save_event_unavailable [store_simps]:
  "\<not> available st \<Longrightarrow> save_event date name etype reminder st = (Inl (OperationalError Unable_to_open), st)"
  by (simp add: save_event_def connect_def)

lemma save_event_ok:
  assumes "wf_storage st" and "available st" and "table_of st = Some rows"
    and "int (length rows) < max_rowid"
  shows "save_event date name etype reminder st =
    (Inr (), st\<lparr>db_file := Some \<lparr>events_tbl = Some (rows @ [new_row (int (length rows) + 1) date name etype reminder]),
                                  seq = int (length rows) + 1\<rparr>\<rparr>)"
proof -
  from assms(2) obtain d where c: "connect st = Inr d" and t: "events_tbl d = table_of st"
    and w: "wf_storage st \<Longrightarrow> wf_db d"
    by (rule connected_db) auto
  with assms show ?thesis
    by (simp add: save_event_def insert_event_wf_eq)
qed

lemma wf_save_event: "wf_storage st \<Longrightarrow> wf_storage (snd (save_event date name etype reminder st))"
proof -
  assume wf: "wf_storage st"
  show ?thesis
  proof (cases "available st")
    case False
    with wf show ?thesis by (simp add: save_event_unavailable)
  next
    case True
    then obtain d where c: "connect st = Inr d" and "wf_storage st \<Longrightarrow> wf_db d"
      by (rule connected_db) auto
    with wf have "wf_db d" by simp
    with c wf show ?thesis
      by (auto simp: save_event_def wf_insert_event split: sum.splits)
  qed
qed

subsection \<open>\<open>list_events\<close>\<close>

lemma wf_table_ids:
  "wf_storage st \<Longrightarrow> table_of st = Some rows \<Longrightarrow> map row_id rows = [1..int (length rows)]"
  by (auto simp: wf_storage_def table_of_def wf_db_def split: option.splits)

lemma wf_sort_rows: "wf_storage st \<Longrightarrow> table_of st = Some rows \<Longrightarrow> sort_key row_id rows = rows"
  by (rule sort_key_id_if_sorted) (simp add: wf_table_ids)

lemma wf_row_id_range:
  "wf_storage st \<Longrightarrow> table_of st = Some rows \<Longrightarrow> x \<in> set rows \<Longrightarrow>
   1 \<le> row_id x \<and> row_id x \<le> int (length rows)"
proof -
  assume "wf_storage st" "table_of st = Some rows" "x \<in> set rows"
  then have "row_id x \<in> set [1..int (length rows)]"
    by (metis wf_table_ids image_eqI set_map)
  then show ?thesis by simp
qed

lemma save_event_Inr:
  assumes "wf_storage st" and "table_of st = Some rows"
    and "save_event date name etype reminder st = (Inr (), st')"
  shows "available st \<and> int (length rows) < max_rowid"
proof -
  have av: "available st"
    using assms(3) by (cases "available st") (simp_all add: save_event_unavailable)
  then obtain d where c: "connect st = Inr d" and t: "events_tbl d = table_of st"
    and w: "wf_storage st \<Longrightarrow> wf_db d"
    by (rule connected_db) auto
  with assms have "\<not> max_rowid \<le> int (length rows)"
    by (auto simp: save_event_def insert_event_wf_eq split: if_splits)
  with av show ?thesis by simp
qed

lemma save_event_Inl_frame:
  assumes "save_event date name etype reminder st = (Inl e, st')"
  shows "db_file st' = db_file st \<and> available st' = available st
         \<and> (available st \<longrightarrow> open_conns st' = Suc (open_conns st))
         \<and> (\<not> available st \<longrightarrow> st' = st \<and> e = OperationalError Unable_to_open)"
proof (cases "available st")
  case False
  with assms show ?thesis by (simp add: save_event_unavailable)
next
  case True
  then obtain d where c: "connect st = Inr d"
    by (rule connected_db) auto
  with assms True show ?thesis
    by (auto simp: save_event_def split: sum.splits)
qed

lemma save_event_Inl_full:
  assumes "wf_storage st" and "available st" and "table_of st = Some rows"
    and "save_event date name etype reminder st = (Inl e, st')"
  shows "e = OperationalError Database_full \<and> max_rowid \<le> int (length rows)"
proof -
  from assms(2) obtain d where c: "connect st = Inr d" and t: "events_tbl d = table_of st"
    and w: "wf_storage st \<Longrightarrow> wf_db d"
    by (rule connected_db) auto
  with assms show ?thesis
    by (auto simp: save_event_def insert_event_wf_eq split: if_splits)
qed

lemma save_event_Inr_table:
  assumes "wf_storage st" and "save_event date name etype reminder st = (Inr u, st')"
  shows "\<exists>rows. table_of st = Some rows \<and> available st \<and> int (length rows) < max_rowid
           \<and> table_of st' = Some (rows @ [new_row (int (length rows) + 1) date name etype reminder])
           \<and> wf_storage st' \<and> available st' = available st"
proof -
  have av: "available st"
    using assms(2) by (cases "available st") (simp_all add: save_event_unavailable)
  then obtain d where c: "connect st = Inr d" and t: "events_tbl d = table_of st"
    by (rule connected_db) auto
  obtain rows where rows: "table_of st = Some rows"
    using assms(2) c t by (cases "table_of st") (auto simp: save_event_def insert_event_def)
  from save_event_Inr [OF assms(1) rows] assms(2) have len: "int (length rows) < max_rowid"
    by (cases u) simp
  from save_event_ok [OF assms(1) av rows len] assms(2)
  have st': "st' = st\<lparr>db_file := Some \<lparr>events_tbl = Some (rows @ [new_row (int (length rows) + 1) date name etype reminder]),
                                  seq = int (length rows) + 1\<rparr>\<rparr>"
    by (cases u) simp
  have "wf_storage st'"
    using st' wf_db_snoc [OF wf_table_ids [OF assms(1) rows] len] by simp
  with st' rows av len show ?thesis by simp
qed

lemma save_event_Inl_table_exists:
  assumes "available st" and "table_of st \<noteq> None"
    and "save_event date name etype reminder st = (Inl e, st')"
  shows "e = OperationalError Database_full"
proof -
  from assms(1) obtain d where c: "connect st = Inr d" and t: "events_tbl d = table_of st"
    by (rule connected_db) auto
  with assms(2,3) show ?thesis
    by (auto simp: save_event_def insert_event_def Let_def split: option.splits if_splits sum.splits)
qed

lemma init_db_effect:
  assumes "init_db st = (r, st')"
  shows "available st' = available st \<and> open_conns st' = open_conns st
         \<and> table_of st' = (if available st then Some (case table_of st of None \<Rightarrow> [] | Some rows \<Rightarrow> rows)
                           else table_of st)
         \<and> (available st \<longleftrightarrow> r = Inr ())"
proof (cases "available st")
  case False
  with assms show ?thesis by (auto simp: init_db_unavailable)
next
  case True
  from init_db_ok [OF True] assms True show ?thesis by auto
qed

subsection \<open>Properties of the store\<close>

text \<open>C1. Saving an event on a well-formed store whose table exists appends exactly one
  row, holding the four values as given and the identity one past the last, commits it,
  and closes its connection.\<close>

theorem save_event_appends:
  assumes "wf_storage st" and "available st" and "table_of st = Some rows"
    and "int (length rows) < max_rowid"
  shows "\<exists>st'. save_event date name etype reminder st = (Inr (), st')
           \<and> table_of st' = Some (rows @ [new_row (int (length rows) + 1) date name etype reminder])
           \<and> wf_storage st' \<and> available st' \<and> open_conns st' = open_conns st"
proof -
  let ?d = "\<lparr>events_tbl = Some (rows @ [new_row (int (length rows) + 1) date name etype reminder]),
             seq = int (length rows) + 1\<rparr>"
  have "save_event date name etype reminder st = (Inr (), st\<lparr>db_file := Some ?d\<rparr>)"
    by (rule save_event_ok [OF assms])
  moreover have "wf_db ?d"
    by (rule wf_db_snoc [OF wf_table_ids [OF assms(1,3)] assms(4)])
  ultimately show ?thesis
    using assms(2) by simp
qed

theorem save_event_appends_witness:
  "\<exists>st'. save_event ''2025-03-01'' ''Asha'' ''Birthday'' 60
            \<lparr>db_file = Some \<lparr>events_tbl = Some [], seq = 0\<rparr>, available = True, open_conns = 0\<rparr> = (Inr (), st')
     \<and> table_of st' = Some [new_row 1 ''2025-03-01'' ''Asha'' ''Birthday'' 60]
     \<and> wf_storage st' \<and> available st' \<and> open_conns st' = 0"
  using save_event_appends [of "\<lparr>db_file = Some \<lparr>events_tbl = Some [], seq = 0\<rparr>, available = True, open_conns = 0\<rparr>"
      "[]" "''2025-03-01''" "''Asha''" "''Birthday''" 60]
  by (simp add: wf_storage_def wf_db_def table_of_def max_rowid_def)

text \<open>C2. Round trip: after a successful save, listing the events returns the rows listed
  before followed by the saved record, field for field.\<close>

theorem save_then_list_roundtrip:
  assumes "wf_storage st" and "available st" and "table_of st = Some rows"
    and "int (length rows) < max_rowid"
  shows "list_events (snd (save_event date name etype reminder st)) =
    (Inr (rows @ [new_row (int (length rows) + 1) date name etype reminder]),
     snd (save_event date name etype reminder st))"
proof -
  let ?rows' = "rows @ [new_row (int (length rows) + 1) date name etype reminder]"
  let ?st' = "snd (save_event date name etype reminder st)"
  have st': "?st' = st\<lparr>db_file := Some \<lparr>events_tbl = Some ?rows', seq = int (length rows) + 1\<rparr>\<rparr>"
    using save_event_ok [OF assms] by simp
  have "wf_storage ?st'" and "table_of ?st' = Some ?rows'"
    using st' wf_db_snoc [OF wf_table_ids [OF assms(1,3)] assms(4)] by simp_all
  then have "sort_key row_id ?rows' = ?rows'"
    by (rule wf_sort_rows)
  with st' assms(2) show ?thesis
    by (simp add: list_events_def connect_def)
qed

theorem save_then_list_roundtrip_witness:
  "list_events (snd (save_event ''2025-03-01'' ''Asha'' ''Birthday'' 60
      \<lparr>db_file = Some \<lparr>events_tbl = Some [], seq = 0\<rparr>, available = True, open_conns = 0\<rparr>)) =
   (Inr [new_row 1 ''2025-03-01'' ''Asha'' ''Birthday'' 60],
    snd (save_event ''2025-03-01'' ''Asha'' ''Birthday'' 60
      \<lparr>db_file = Some \<lparr>events_tbl = Some [], seq = 0\<rparr>, available = True, open_conns = 0\<rparr>))"
  using save_then_list_roundtrip [of "\<lparr>db_file = Some \<lparr>events_tbl = Some [], seq = 0\<rparr>, available = True, open_conns = 0\<rparr>"
      "[]" "''2025-03-01''" "''Asha''" "''Birthday''" 60]
  by (simp add: wf_storage_def wf_db_def table_of_def max_rowid_def)

text \<open>C4. Identities are strictly increasing in insertion order: the row a successful save
  adds has an identity larger than that of every row already stored, so it is distinct
  from all of them.\<close>

theorem save_event_fresh_id:
  assumes "wf_storage st" and "table_of st = Some rows"
    and "save_event date name etype reminder st = (Inr (), st')"
  shows "\<exists>r. table_of st' = Some (rows @ [r]) \<and> (\<forall>x \<in> set rows. row_id x < row_id r)"
proof -
  from save_event_Inr [OF assms] have av: "available st" and len: "int (length rows) < max_rowid"
    by simp_all
  from save_event_ok [OF assms(1) av assms(2) len] assms(3)
  have "table_of st' = Some (rows @ [new_row (int (length rows) + 1) date name etype reminder])"
    by auto
  moreover have "\<forall>x \<in> set rows. row_id x < int (length rows) + 1"
    using wf_row_id_range [OF assms(1,2)] by fastforce
  ultimately show ?thesis
    by (auto simp: new_row_def)
qed

theorem save_event_fresh_id_witness:
  "\<exists>r. table_of (snd (save_event ''2025-04-02'' ''Ravi'' ''Anniversary'' 30
          \<lparr>db_file = Some \<lparr>events_tbl = Some [new_row 1 ''2025-03-01'' ''Asha'' ''Birthday'' 60], seq = 1\<rparr>,
           available = True, open_conns = 0\<rparr>))
        = Some ([new_row 1 ''2025-03-01'' ''Asha'' ''Birthday'' 60] @ [r])
      \<and> (\<forall>x \<in> set [new_row 1 ''2025-03-01'' ''Asha'' ''Birthday'' 60]. row_id x < row_id r)"
proof -
  let ?st = "\<lparr>db_file = Some \<lparr>events_tbl = Some [new_row 1 ''2025-03-01'' ''Asha'' ''Birthday'' 60], seq = 1\<rparr>,
              available = True, open_conns = 0\<rparr>"
  have wf: "wf_storage ?st" and t: "table_of ?st = Some [new_row 1 ''2025-03-01'' ''Asha'' ''Birthday'' 60]"
    by (simp_all add: wf_storage_def wf_db_def table_of_def new_row_def max_rowid_def)
  have "save_event ''2025-04-02'' ''Ravi'' ''Anniversary'' 30 ?st =
        (Inr (), snd (save_event ''2025-04-02'' ''Ravi'' ''Anniversary'' 30 ?st))"
    using save_event_ok [OF wf _ t] by (simp add: max_rowid_def)
  from save_event_fresh_id [OF wf t this] show ?thesis .
qed

text \<open>C5. \<open>init_db\<close> is idempotent: once it has succeeded, running it again succeeds and
  changes nothing, and it never drops rows: the table afterwards holds the rows it held
  before (none when it did not exist).\<close>

theorem init_db_idempotent:
  assumes "init_db st = (Inr (), st')"
  shows "init_db st' = (Inr (), st')
         \<and> table_of st' = Some (case table_of st of None \<Rightarrow> [] | Some rows \<Rightarrow> rows)"
proof -
  have av: "available st"
    using assms by (cases "available st") (simp_all add: init_db_unavailable)
  from init_db_ok [OF av] assms obtain d where st': "st' = st\<lparr>db_file := Some d\<rparr>"
    and t: "events_tbl d = Some (case table_of st of None \<Rightarrow> [] | Some rows \<Rightarrow> rows)"
    by auto
  then have "create_events_table d = d"
    by (simp add: create_events_table_def)
  with st' t av show ?thesis
    by (simp add: init_db_def connect_def)
qed

theorem init_db_idempotent_witness:
  "init_db (snd (init_db \<lparr>db_file = None, available = True, open_conns = 0\<rparr>)) =
     (Inr (), snd (init_db \<lparr>db_file = None, available = True, open_conns = 0\<rparr>))
   \<and> table_of (snd (init_db \<lparr>db_file = None, available = True, open_conns = 0\<rparr>)) = Some []"
proof -
  have "init_db \<lparr>db_file = None, available = True, open_conns = 0\<rparr> =
        (Inr (), snd (init_db \<lparr>db_file = None, available = True, open_conns = 0\<rparr>))"
    by (simp add: init_db_def connect_def)
  from init_db_idempotent [OF this] show ?thesis by (simp add: table_of_def)
qed

text \<open>C6. Well-formedness (identities \<open>1..n\<close> in row order, sequence \<open>n\<close>, \<open>n\<close> a
  valid rowid) is an invariant of the store: every operation, failing or not, keeps it.\<close>

theorem store_ops_preserve_wf:
  assumes "wf_storage st"
  shows "wf_storage (snd (init_db st)) \<and> wf_storage (snd (save_event date name etype reminder st))
         \<and> wf_storage (snd (list_events st))"
proof -
  have "snd (list_events st) = st"
    by (simp add: list_events_def split: sum.splits option.splits)
  with assms wf_init_db wf_save_event show ?thesis by simp
qed

theorem store_ops_preserve_wf_witness:
  "wf_storage \<lparr>db_file = None, available = True, open_conns = 0\<rparr>
   \<and> wf_storage (snd (init_db \<lparr>db_file = None, available = True, open_conns = 0\<rparr>))
   \<and> wf_storage (snd (save_event ''2025-03-01'' ''Asha'' ''Birthday'' 60 \<lparr>db_file = None, available = True, open_conns = 0\<rparr>))
   \<and> wf_storage (snd (list_events \<lparr>db_file = None, available = True, open_conns = 0\<rparr>))"
  using store_ops_preserve_wf [of "\<lparr>db_file = None, available = True, open_conns = 0\<rparr>"
      "''2025-03-01''" "''Asha''" "''Birthday''" 60]
  by (simp add: wf_storage_def)



text \<open>C11. Saving into a file whose table does not exist raises
  \<^verbatim>\<open>OperationalError\<close> (no such table), writes nothing, and leaves the connection
  open: \<^verbatim>\<open>conn.close()\<close> on line 72 is never reached.\<close>

theorem save_event_no_table_leaks:
  assumes "available st" and "table_of st = None"
  shows "save_event date name etype reminder st =
           (Inl (OperationalError No_such_table), st\<lparr>open_conns := Suc (open_conns st)\<rparr>)"
proof -
  from assms(1) obtain d where c: "connect st = Inr d" and t: "events_tbl d = table_of st"
    by (rule connected_db) auto
  with assms(2) show ?thesis
    by (simp add: save_event_def insert_event_def)
qed

theorem save_event_no_table_leaks_witness:
  "save_event ''2025-03-01'' ''Asha'' ''Birthday'' 60 \<lparr>db_file = None, available = True, open_conns = 0\<rparr> =
     (Inl (OperationalError No_such_table), \<lparr>db_file = None, available = True, open_conns = 1\<rparr>)"
  using save_event_no_table_leaks [of "\<lparr>db_file = None, available = True, open_conns = 0\<rparr>"]
  by (simp add: table_of_def)



text \<open>C17. The identity space is bounded: once the sequence has reached the largest
  rowid, a save fails with \<^verbatim>\<open>SQLITE_FULL\<close> and writes nothing.\<close>

theorem save_event_full:
  assumes "available st" and "db_file st = Some d" and "events_tbl d = Some rows"
    and "max_rowid \<le> seq d"
  shows "save_event date name etype reminder st =
           (Inl (OperationalError Database_full), st\<lparr>open_conns := Suc (open_conns st)\<rparr>)"
  using assms by (simp add: save_event_def connect_def insert_event_def Let_def)

theorem save_event_full_witness:
  "save_event ''2025-03-01'' ''Asha'' ''Birthday'' 60
     \<lparr>db_file = Some \<lparr>events_tbl = Some [], seq = 9223372036854775807\<rparr>, available = True, open_conns = 0\<rparr> =
   (Inl (OperationalError Database_full),
     \<lparr>db_file = Some \<lparr>events_tbl = Some [], seq = 9223372036854775807\<rparr>, available = True, open_conns = 1\<rparr>)"
  using save_event_full [of "\<lparr>db_file = Some \<lparr>events_tbl = Some [], seq = 9223372036854775807\<rparr>,
                               available = True, open_conns = 0\<rparr>"
      "\<lparr>events_tbl = Some [], seq = 9223372036854775807\<rparr>" "[]"]
  by (simp add: max_rowid_def)



text \<open>C14. No deduplication: two saves with the same date, name and type add two rows,
  with consecutive, distinct identities.\<close>

theorem save_twice_no_dedup:
  assumes "wf_storage st" and "available st" and "table_of st = Some rows"
    and "int (length rows) + 1 < max_rowid"
  shows "table_of (snd (save_event date name etype r2 (snd (save_event date name etype r1 st)))) =
         Some (rows @ [new_row (int (length rows) + 1) date name etype r1,
                       new_row (int (length rows) + 2) date name etype r2])"
proof -
  let ?rows1 = "rows @ [new_row (int (length rows) + 1) date name etype r1]"
  let ?st1 = "snd (save_event date name etype r1 st)"
  have st1: "?st1 = st\<lparr>db_file := Some \<lparr>events_tbl = Some ?rows1, seq = int (length rows) + 1\<rparr>\<rparr>"
    using save_event_ok [OF assms(1-3)] assms(4) by simp
  have wf1: "wf_storage ?st1" and t1: "table_of ?st1 = Some ?rows1"
    using st1 wf_db_snoc [OF wf_table_ids [OF assms(1,3)]] assms(4) by simp_all
  have "available ?st1" using st1 assms(2) by simp
  from save_event_ok [OF wf1 this t1] assms(4) show ?thesis
    by (simp add: ac_simps)
qed

theorem save_twice_no_dedup_witness:
  "table_of (snd (save_event ''2025-03-01'' ''Asha'' ''Birthday'' 90
     (snd (save_event ''2025-03-01'' ''Asha'' ''Birthday'' 60
        \<lparr>db_file = Some \<lparr>events_tbl = Some [], seq = 0\<rparr>, available = True, open_conns = 0\<rparr>)))) =
   Some [new_row 1 ''2025-03-01'' ''Asha'' ''Birthday'' 60, new_row 2 ''2025-03-01'' ''Asha'' ''Birthday'' 90]"
  using save_twice_no_dedup [of "\<lparr>db_file = Some \<lparr>events_tbl = Some [], seq = 0\<rparr>, available = True, open_conns = 0\<rparr>"
      "[]" "''2025-03-01''" "''Asha''" "''Birthday''" 90 60]
  by (simp add: wf_storage_def wf_db_def table_of_def max_rowid_def)



end
