(* ===== verification/Reminder.thy ===== *)
theory Reminder
  imports PyFormat EventStore
begin

text \<open>
  The Birthdays/Anniversaries page, \<^verbatim>\<open>birthday_reminder()\<close> (lines 74--84): a
  form with a date picker, a name field, a select box of the two event types and a
  reminder slider over \<open>[0, 1440]\<close>; on submit the date is formatted with
  \<^verbatim>\<open>strftime("%Y-%m-%d")\<close> and the four values are handed to \<open>save_event\<close>.
  The form's values are a record; what the widgets can return (a valid date, a
  slider value within its bounds) is the predicate \<open>form_widgets_ok\<close>. The
  page is a function of the form and the storage to the messages shown and the new
  storage.
  The lemmas: a submitted form appends exactly the row built from its values and
  confirms it; without a submit nothing happens; a failed save shows the traceback
  and no confirmation; and the rows the page writes satisfy the column contracts of
  the specification (reminder in range, a known event type, a well-formed date).
\<close>

datatype event_type = Birthday | Anniversary

text \<open>The options of \<^verbatim>\<open>st.selectbox("Type of Event", ["Birthday", "Anniversary"])\<close>.\<close>

primrec event_type_str :: "event_type \<Rightarrow> py_str" where
  "event_type_str Birthday = ''Birthday''"
| "event_type_str Anniversary = ''Anniversary''"

definition REMINDER_MIN :: int where
  "REMINDER_MIN = 0"

definition REMINDER_MAX :: int where
  "REMINDER_MAX = 1440"

record event_form =
  event_date :: py_date
  person_name :: py_str
  event_kind :: event_type
  reminder_minutes :: int
  submit :: bool

text \<open>What the widgets of the form can return: \<^verbatim>\<open>st.date_input\<close> a valid date,
  \<^verbatim>\<open>st.slider(..., 0, 1440, 60)\<close> a value within its bounds.\<close>

definition form_widgets_ok :: "event_form \<Rightarrow> bool" where
  "form_widgets_ok f =
     (valid_date (event_date f) \<and> REMINDER_MIN \<le> reminder_minutes f \<and> reminder_minutes f \<le> REMINDER_MAX)"

definition saved_msg :: "event_type \<Rightarrow> py_str \<Rightarrow> py_str" where
  "saved_msg t name = event_type_str t @ '' for '' @ name @ '' saved successfully!''"

definition birthday_reminder :: "event_form \<Rightarrow> storage \<Rightarrow> ui list \<times> storage" where
  "birthday_reminder f st =
     (if submit f then
        (case save_event (strftime_ymd (event_date f)) (person_name f)
                (event_type_str (event_kind f)) (reminder_minutes f) st of
           (Inl e, st') \<Rightarrow> ([Traceback e], st')
         | (Inr _, st') \<Rightarrow> ([Success (saved_msg (event_kind f) (person_name f))], st'))
      else ([], st))"

text \<open>The column contracts of the specification for one stored row.\<close>

definition row_ok :: "event_row \<Rightarrow> bool" where
  "row_ok r =
     (REMINDER_MIN \<le> row_reminder r \<and> row_reminder r \<le> REMINDER_MAX
      \<and> (row_event_type r = ''Birthday'' \<or> row_event_type r = ''Anniversary'')
      \<and> (case parse_ymd (row_date r) of
           None \<Rightarrow> False
         | Some d \<Rightarrow> valid_date d \<and> strftime_ymd d = row_date r))"

definition rows_ok :: "storage \<Rightarrow> bool" where
  "rows_ok st = (case table_of st of None \<Rightarrow> True | Some rows \<Rightarrow> list_all row_ok rows)"

section \<open>Lemmas\<close>

lemma birthday_reminder_no_submit [simp]: "\<not> submit f \<Longrightarrow> birthday_reminder f st = ([], st)"
  by (simp add: birthday_reminder_def)

lemma row_ok_new_row:
  assumes "form_widgets_ok f"
  shows "row_ok (new_row i (strftime_ymd (event_date f)) (person_name f)
                   (event_type_str (event_kind f)) (reminder_minutes f))"
proof -
  have "parse_ymd (strftime_ymd (event_date f)) = Some (event_date f)"
    using assms strftime_parse [of "event_date f"] by (simp add: form_widgets_ok_def)
  with assms show ?thesis
    by (cases "event_kind f") (simp_all add: row_ok_def new_row_def form_widgets_ok_def)
qed

lemma birthday_reminder_wf: "wf_storage st \<Longrightarrow> wf_storage (snd (birthday_reminder f st))"
  using wf_save_event [of st "strftime_ymd (event_date f)" "person_name f"
      "event_type_str (event_kind f)" "reminder_minutes f"]
  by (auto simp: birthday_reminder_def split: sum.splits prod.splits)

lemma birthday_reminder_rows_ok:
  assumes "form_widgets_ok f" and "wf_storage st" and "rows_ok st"
  shows "rows_ok (snd (birthday_reminder f st))"
proof (cases "submit f")
  case False
  with assms(3) show ?thesis by simp
next
  case True
  let ?save = "save_event (strftime_ymd (event_date f)) (person_name f)
                 (event_type_str (event_kind f)) (reminder_minutes f) st"
  obtain r st' where save: "?save = (r, st')" by (cases ?save)
  show ?thesis
  proof (cases r)
    case (Inl e)
    with save_event_Inl_frame [of _ _ _ _ st e st'] save have "table_of st' = table_of st"
      by (simp add: table_of_def)
    with True Inl save assms(3) show ?thesis
      by (simp add: birthday_reminder_def rows_ok_def)
  next
    case (Inr u)
    with save_event_Inr_table [OF assms(2)] save obtain rows where
      t: "table_of st = Some rows"
      and t': "table_of st' = Some (rows @ [new_row (int (length rows) + 1) (strftime_ymd (event_date f))
                  (person_name f) (event_type_str (event_kind f)) (reminder_minutes f)])"
      by blast
    with True Inr save assms(1,3) row_ok_new_row show ?thesis
      by (simp add: birthday_reminder_def rows_ok_def)
  qed
qed

text \<open>C8. Submitting the form on a well-formed store appends exactly one row, built
  from the form: the date as \<^verbatim>\<open>YYYY-MM-DD\<close> text, the name as typed, the type's
  label and the slider value, under the next identity; the page then confirms with
  \<^verbatim>\<open>"<type> for <name> saved successfully!"\<close>.\<close>

theorem birthday_reminder_saves:
  assumes "wf_storage st" and "available st" and "table_of st = Some rows"
    and "int (length rows) < max_rowid" and "submit f"
  shows "\<exists>st'. birthday_reminder f st = ([Success (saved_msg (event_kind f) (person_name f))], st')
           \<and> table_of st' = Some (rows @ [new_row (int (length rows) + 1) (strftime_ymd (event_date f))
                                          (person_name f) (event_type_str (event_kind f)) (reminder_minutes f)])"
  using save_event_ok [OF assms(1-4)] assms(5) by (simp add: birthday_reminder_def)

theorem birthday_reminder_saves_witness:
  "\<exists>st'. birthday_reminder \<lparr>event_date = \<lparr>year = 2025, month = 3, day = 1\<rparr>, person_name = ''Asha'',
            event_kind = Birthday, reminder_minutes = 60, submit = True\<rparr>
          \<lparr>db_file = Some \<lparr>events_tbl = Some [], seq = 0\<rparr>, available = True, open_conns = 0\<rparr>
        = ([Success ''Birthday for Asha saved successfully!''], st')
      \<and> table_of st' = Some [new_row 1 ''2025-03-01'' ''Asha'' ''Birthday'' 60]"
proof -
  let ?f = "\<lparr>event_date = \<lparr>year = 2025, month = 3, day = 1\<rparr>, person_name = ''Asha'',
            event_kind = Birthday, reminder_minutes = 60, submit = True\<rparr>"
  let ?st = "\<lparr>db_file = Some \<lparr>events_tbl = Some [], seq = 0\<rparr>, available = True, open_conns = 0\<rparr>"
  have "wf_storage ?st" "available ?st" "table_of ?st = Some []" "int (length ([]::event_row list)) < max_rowid"
       "submit ?f"
    by (simp_all add: wf_storage_def wf_db_def table_of_def max_rowid_def)
  from birthday_reminder_saves [OF this] have
    "\<exists>st'. birthday_reminder ?f ?st = ([Success (saved_msg Birthday ''Asha'')], st')
        \<and> table_of st' = Some [new_row 1 (strftime_ymd \<lparr>year = 2025, month = 3, day = 1\<rparr>) ''Asha'' ''Birthday'' 60]"
    by simp
  moreover have "strftime_ymd \<lparr>year = 2025, month = 3, day = 1\<rparr> = ''2025-03-01''"
    by (simp add: strftime_ymd_def zpad_def dec_str.simps digit_char_def)
  moreover have "saved_msg Birthday ''Asha'' = ''Birthday for Asha saved successfully!''"
    by (simp add: saved_msg_def)
  ultimately show ?thesis by simp
qed

text \<open>C19. When the save raises, the page shows the traceback and no confirmation,
  and the table is unchanged: no partial write.\<close>

theorem birthday_reminder_error:
  assumes "submit f"
    and "save_event (strftime_ymd (event_date f)) (person_name f) (event_type_str (event_kind f))
           (reminder_minutes f) st = (Inl e, st')"
  shows "birthday_reminder f st = ([Traceback e], st') \<and> table_of st' = table_of st"
  using assms save_event_Inl_frame [OF assms(2)]
  by (simp add: birthday_reminder_def table_of_def)

theorem birthday_reminder_error_witness:
  "birthday_reminder \<lparr>event_date = \<lparr>year = 2025, month = 3, day = 1\<rparr>, person_name = ''Asha'',
       event_kind = Birthday, reminder_minutes = 60, submit = True\<rparr>
     \<lparr>db_file = None, available = False, open_conns = 0\<rparr>
   = ([Traceback (OperationalError Unable_to_open)], \<lparr>db_file = None, available = False, open_conns = 0\<rparr>)"
proof -
  let ?f = "\<lparr>event_date = \<lparr>year = 2025, month = 3, day = 1\<rparr>, person_name = ''Asha'',
       event_kind = Birthday, reminder_minutes = 60, submit = True\<rparr>"
  let ?st = "\<lparr>db_file = None, available = False, open_conns = 0\<rparr>"
  have s: "submit ?f" by simp
  have e: "save_event (strftime_ymd (event_date ?f)) (person_name ?f) (event_type_str (event_kind ?f))
             (reminder_minutes ?f) ?st = (Inl (OperationalError Unable_to_open), ?st)"
    by (simp add: save_event_unavailable)
  from birthday_reminder_error [OF s e] show ?thesis by simp
qed

lemma birthday_reminder_traceback:
  "Traceback e \<in> set (fst (birthday_reminder f st)) \<Longrightarrow> fst (birthday_reminder f st) = [Traceback e]"
  by (auto simp: birthday_reminder_def split: sum.splits prod.splits if_splits)

lemma birthday_reminder_effect:
  assumes "wf_storage st" and "birthday_reminder f st = (out, st')"
  shows "available st' = available st
         \<and> (open_conns st' = open_conns st \<and> table_of st' = table_of st
            \<or> open_conns st' = open_conns st \<and> (\<exists>rows. table_of st = Some rows \<and> int (length rows) < max_rowid
                                                  \<and> (\<exists>r. table_of st' = Some (rows @ [r])))
            \<or> open_conns st' = Suc (open_conns st) \<and> table_of st' = table_of st
              \<and> (available st \<longrightarrow> table_of st \<noteq> None \<longrightarrow>
                   (\<exists>rows. table_of st = Some rows \<and> max_rowid \<le> int (length rows))))"
proof (cases "submit f")
  case False
  with assms(2) show ?thesis by simp
next
  case True
  let ?save = "save_event (strftime_ymd (event_date f)) (person_name f)
                 (event_type_str (event_kind f)) (reminder_minutes f) st"
  obtain r st'' where save: "?save = (r, st'')" by (cases ?save)
  show ?thesis
  proof (cases r)
    case (Inl e)
    have fr: "db_file st'' = db_file st \<and> available st'' = available st
         \<and> (available st \<longrightarrow> open_conns st'' = Suc (open_conns st))
         \<and> (\<not> available st \<longrightarrow> st'' = st \<and> e = OperationalError Unable_to_open)"
      using save_event_Inl_frame save Inl by blast
    have "available st \<Longrightarrow> table_of st \<noteq> None \<Longrightarrow>
            (\<exists>rows. table_of st = Some rows \<and> max_rowid \<le> int (length rows))"
      using save_event_Inl_full [OF assms(1)] save Inl by blast
    with fr True Inl save assms(2) show ?thesis
      by (cases "available st") (auto simp: birthday_reminder_def table_of_def)
  next
    case (Inr u)
    from save_event_Inr_table [OF assms(1)] save Inr obtain rows where
      "table_of st = Some rows" "int (length rows) < max_rowid"
      "table_of st'' = Some (rows @ [new_row (int (length rows) + 1) (strftime_ymd (event_date f))
                  (person_name f) (event_type_str (event_kind f)) (reminder_minutes f)])"
      "available st'' = available st"
      by blast
    moreover have "open_conns st'' = open_conns st"
      using save Inr by (auto simp: save_event_def split: sum.splits)
    ultimately show ?thesis
      using True Inr save assms(2) by (auto simp: birthday_reminder_def)
  qed
qed

end
