(* ===== verification/Dashboard.thy ===== *)
theory Dashboard
  imports Fitness Wellness Reminder
begin

text \<open>
  The script as Streamlit runs it. Every interaction reruns
  \<^verbatim>\<open>src/ai_coach_dashboard.py\<close> from the top: \<^verbatim>\<open>init_db()\<close> at module level
  (line 31), then the page routing of lines 87--111 on the current widget values.
  One run is \<open>run_script\<close>: the widget values (a record \<open>run_input\<close>) and the
  storage give the page shown and the new storage; an exception stops the run where it
  is raised, so nothing after it is rendered. The classifier of the Mental Wellness
  page is a parameter of the run. A session is a sequence of reruns, interleaved with
  changes of the environment (the file becoming unavailable or available again): the
  step relation \<open>rerun\<close>, and the storage states reachable from the first start,
  when no database file exists.
  The lemmas: one run never meets a missing table (the table is created first);
  only the Birthdays page writes; an exception is always the last thing shown; every
  reachable storage is well formed and all its rows satisfy the column contracts; and
  a connection is only ever leaked once the identity space is exhausted.
\<close>

datatype coaching_type = Personal_Coaching | Professional_Coaching

datatype category = Select | Health_Fitness | Mental_Wellness | Birthdays_Reminder

text \<open>The values of all widgets in one run.\<close>

record run_input =
  choice :: coaching_type
  category_choice :: category
  steps_input :: nat
  track_pressed :: bool
  mood_input :: py_str
  check_pressed :: bool
  event_input :: event_form

definition title_text :: py_str where
  "title_text = [CHR 0xC3, CHR 0xB0, CHR 0xC5, CHR 0xB8, CHR 0xC2, CHR 0xA4, CHR 0xE2, CHR 0x80, CHR 0x93]
                @ '' AI-Powered Coach Dashboard''"

definition personal_subheader :: py_str where
  "personal_subheader = [CHR 0xC3, CHR 0xB0, CHR 0xC5, CHR 0xB8, CHR 0xE2, CHR 0x80, CHR 0x9C, CHR 0xE2, CHR 0x80, CHR 0xB9]
                        @ '' Personal Coaching Categories''"

definition professional_subheader :: py_str where
  "professional_subheader = [CHR 0xC3, CHR 0xB0, CHR 0xC5, CHR 0xB8, CHR 0xE2, CHR 0x80, CHR 0x9C, CHR 0xE2, CHR 0x80, CHR 0xB9]
                            @ '' Professional Coaching Categories''"

definition caption_text :: py_str where
  "caption_text = ''Built with '' @ [CHR 0xC3, CHR 0xA2, CHR 0xC2, CHR 0xA4, CHR 0xC3, CHR 0xAF, CHR 0xC2, CHR 0xB8]
                  @ '' using Streamlit''"

definition professional_items :: "ui list" where
  "professional_items =
     [Write ''- Reports generation'', Write ''- Meetings/Events Reminder'', Write ''- Project Deadlines Reminder'']"

definition footer :: "ui list" where
  "footer = [Markdown ''---'', Caption caption_text]"

text \<open>The \<^verbatim>\<open>if option == ... elif ...\<close> chain of lines 95--102; \<^verbatim>\<open>"Select"\<close> shows
  nothing.\<close>

definition personal_page :: "classifier \<Rightarrow> run_input \<Rightarrow> storage \<Rightarrow> ui list \<times> storage" where
  "personal_page sentiment_model i st =
     (case category_choice i of
        Select \<Rightarrow> ([], st)
      | Health_Fitness \<Rightarrow> (fitness_tracker (steps_input i) (track_pressed i), st)
      | Mental_Wellness \<Rightarrow> (mental_wellness sentiment_model (mood_input i) (check_pressed i), st)
      | Birthdays_Reminder \<Rightarrow> birthday_reminder (event_input i) st)"

text \<open>Lines 87--111. The footer of lines 110--111 is reached only when the page did
  not raise.\<close>

definition dashboard :: "classifier \<Rightarrow> run_input \<Rightarrow> storage \<Rightarrow> ui list \<times> storage" where
  "dashboard sentiment_model i st =
     (let (body, st') =
        (case choice i of
           Personal_Coaching \<Rightarrow>
             (let (page, st') = personal_page sentiment_model i st in (Subheader personal_subheader # page, st'))
         | Professional_Coaching \<Rightarrow> (Subheader professional_subheader # professional_items, st))
      in (Title title_text # body @ (if list_ex is_traceback body then [] else footer), st'))"

text \<open>One run of the script: \<^verbatim>\<open>init_db()\<close> first; if it raises, nothing else runs.\<close>

definition run_script :: "classifier \<Rightarrow> run_input \<Rightarrow> storage \<Rightarrow> ui list \<times> storage" where
  "run_script sentiment_model i st =
     (case init_db st of
        (Inl e, st') \<Rightarrow> ([Traceback e], st')
      | (Inr _, st') \<Rightarrow> dashboard sentiment_model i st')"

definition input_ok :: "run_input \<Rightarrow> bool" where
  "input_ok i = form_widgets_ok (event_input i)"

text \<open>A session: reruns on widget values the widgets can produce, and changes of the
  file's availability.\<close>

inductive rerun :: "storage \<Rightarrow> storage \<Rightarrow> bool" where
  run: "input_ok i \<Longrightarrow> run_script sentiment_model i st = (out, st') \<Longrightarrow> rerun st st'"
| env: "rerun st (st\<lparr>available := b\<rparr>)"

inductive reachable :: "storage \<Rightarrow> bool" where
  start: "reachable \<lparr>db_file = None, available = b, open_conns = 0\<rparr>"
| step: "reachable st \<Longrightarrow> rerun st st' \<Longrightarrow> reachable st'"

inductive_cases rerun_cases: "rerun st st'"

text \<open>The invariant of the session.\<close>

definition store_inv :: "storage \<Rightarrow> bool" where
  "store_inv st = (wf_storage st \<and> rows_ok st)"

definition no_leak_inv :: "storage \<Rightarrow> bool" where
  "no_leak_inv st =
     (open_conns st = 0 \<or> (case table_of st of None \<Rightarrow> False | Some rows \<Rightarrow> int (length rows) = max_rowid))"

text \<open>Concrete values used by the witnesses: the first start, and the run of the
  specification's scenario (a birthday for Asha on 2025-03-01, reminder 60 minutes).\<close>

abbreviation fresh_storage :: storage where
  "fresh_storage \<equiv> \<lparr>db_file = None, available = True, open_conns = 0\<rparr>"

abbreviation asha_form :: event_form where
  "asha_form \<equiv> \<lparr>event_date = \<lparr>year = 2025, month = 3, day = 1\<rparr>, person_name = ''Asha'',
                event_kind = Birthday, reminder_minutes = 60, submit = True\<rparr>"

abbreviation asha_input :: run_input where
  "asha_input \<equiv> \<lparr>choice = Personal_Coaching, category_choice = Birthdays_Reminder, steps_input = 0,
                 track_pressed = False, mood_input = [], check_pressed = False, event_input = asha_form\<rparr>"

abbreviation asha_storage :: storage where
  "asha_storage \<equiv> \<lparr>db_file = Some \<lparr>events_tbl = Some [new_row 1 ''2025-03-01'' ''Asha'' ''Birthday'' 60], seq = 1\<rparr>,
                   available = True, open_conns = 0\<rparr>"

section \<open>Lemmas\<close>

lemma personal_page_storage:
  "category_choice i \<noteq> Birthdays_Reminder \<Longrightarrow> snd (personal_page m i st) = st"
  by (cases "category_choice i") (simp_all add: personal_page_def)

lemma dashboard_storage:
  "snd (dashboard m i st) =
     (if choice i = Personal_Coaching then snd (personal_page m i st) else st)"
  by (cases "choice i") (simp_all add: dashboard_def split: prod.splits)

lemma run_script_storage:
  "snd (run_script m i st) =
     (case init_db st of (Inl e, st') \<Rightarrow> st' | (Inr _, st') \<Rightarrow> snd (dashboard m i st'))"
  by (simp add: run_script_def split: sum.splits prod.splits)

lemma list_ex_is_traceback: "list_ex is_traceback xs \<longleftrightarrow> (\<exists>e. Traceback e \<in> set xs)"
proof -
  have "\<And>x. is_traceback x \<longleftrightarrow> (\<exists>e. x = Traceback e)"
    by (case_tac x) simp_all
  then show ?thesis by (auto simp: list_ex_iff)
qed

lemma fitness_no_traceback: "Traceback e \<notin> set (fitness_tracker steps b)"
  by (simp add: fitness_tracker_def Let_def)

lemma wellness_traceback:
  "Traceback e \<in> set (mental_wellness m t b) \<Longrightarrow> mental_wellness m t b = [Traceback e] \<and> e = IndexError"
  by (auto simp: mental_wellness_def Let_def split: list.splits if_splits)

lemma personal_page_traceback:
  assumes "Traceback e \<in> set (fst (personal_page m i st))"
  shows "fst (personal_page m i st) = [Traceback e]
         \<and> (e = IndexError \<or> (category_choice i = Birthdays_Reminder
              \<and> Traceback e \<in> set (fst (birthday_reminder (event_input i) st))))"
  using assms
  by (cases "category_choice i")
     (auto simp: personal_page_def fitness_no_traceback dest: wellness_traceback birthday_reminder_traceback)

lemma dashboard_out:
  "fst (dashboard m i st) =
     (let body = (case choice i of
                    Personal_Coaching \<Rightarrow> Subheader personal_subheader # fst (personal_page m i st)
                  | Professional_Coaching \<Rightarrow> Subheader professional_subheader # professional_items)
      in Title title_text # body @ (if list_ex is_traceback body then [] else footer))"
  by (cases "choice i"; cases "personal_page m i st") (simp_all add: dashboard_def)

lemma dashboard_traceback:
  assumes "Traceback e \<in> set (fst (dashboard m i st))"
  shows "fst (dashboard m i st) = [Title title_text, Subheader personal_subheader, Traceback e]
         \<and> choice i = Personal_Coaching \<and> Traceback e \<in> set (fst (personal_page m i st))"
proof (cases "choice i")
  case Personal_Coaching
  with assms have "Traceback e \<in> set (fst (personal_page m i st))"
    by (auto simp: dashboard_out footer_def list_ex_is_traceback split: if_splits)
  with personal_page_traceback [OF this] Personal_Coaching show ?thesis
    by (simp add: dashboard_out list_ex_is_traceback)
next
  case Professional_Coaching
  with assms show ?thesis
    by (simp add: dashboard_out footer_def professional_items_def list_ex_is_traceback)
qed

lemma birthday_reminder_traceback_full:
  assumes "available st" and "table_of st \<noteq> None"
    and "Traceback e \<in> set (fst (birthday_reminder f st))"
  shows "e = OperationalError Database_full"
proof -
  let ?save = "save_event (strftime_ymd (event_date f)) (person_name f)
                 (event_type_str (event_kind f)) (reminder_minutes f) st"
  obtain r st'' where save: "?save = (r, st'')" by (cases ?save)
  with assms(3) have "submit f" and "r = Inl e"
    by (auto simp: birthday_reminder_def split: if_splits sum.splits)
  with save save_event_Inl_table_exists [OF assms(1,2)] show ?thesis by blast
qed

subsection \<open>The invariant of a session\<close>

lemma init_db_store_inv: "store_inv st \<Longrightarrow> store_inv (snd (init_db st))"
  using init_db_effect [of st "fst (init_db st)" "snd (init_db st)"] wf_init_db [of st]
  by (auto simp: store_inv_def rows_ok_def split: option.splits)

lemma dashboard_store_inv:
  assumes "input_ok i" and "store_inv st"
  shows "store_inv (snd (dashboard m i st))"
proof (cases "choice i = Personal_Coaching \<and> category_choice i = Birthdays_Reminder")
  case True
  then have "snd (dashboard m i st) = snd (birthday_reminder (event_input i) st)"
    by (simp add: dashboard_storage personal_page_def)
  with assms birthday_reminder_rows_ok birthday_reminder_wf show ?thesis
    by (simp add: store_inv_def input_ok_def)
next
  case False
  then have "snd (dashboard m i st) = st"
    by (auto simp: dashboard_storage personal_page_storage)
  with assms show ?thesis by simp
qed

lemma run_script_store_inv:
  assumes "input_ok i" and "store_inv st"
  shows "store_inv (snd (run_script m i st))"
proof -
  obtain r st1 where i: "init_db st = (r, st1)" by (cases "init_db st")
  with init_db_store_inv [OF assms(2)] have "store_inv st1" by simp
  with i dashboard_store_inv [OF assms(1), of st1 m] show ?thesis
    by (cases r) (simp_all add: run_script_storage)
qed

lemma rerun_store_inv: "rerun st st' \<Longrightarrow> store_inv st \<Longrightarrow> store_inv st'"
proof (induction rule: rerun.induct)
  case (run i sentiment_model st out st')
  then show ?case using run_script_store_inv [of i st sentiment_model] by simp
next
  case (env st b)
  then show ?case by (simp add: store_inv_def rows_ok_def)
qed

lemma reachable_store_inv_aux: "reachable st \<Longrightarrow> store_inv st"
proof (induction rule: reachable.induct)
  case (start b)
  show ?case by (simp add: store_inv_def wf_storage_def rows_ok_def table_of_def)
next
  case (step st st')
  then show ?case by (blast intro: rerun_store_inv)
qed

subsection \<open>Connections are leaked only when the identities run out\<close>

lemma wf_len_le: "wf_storage st \<Longrightarrow> table_of st = Some rows \<Longrightarrow> int (length rows) \<le> max_rowid"
  by (auto simp: wf_storage_def wf_db_def table_of_def split: option.splits)

lemma init_db_no_leak: "no_leak_inv st \<Longrightarrow> no_leak_inv (snd (init_db st))"
  using init_db_effect [of st "fst (init_db st)" "snd (init_db st)"]
  by (auto simp: no_leak_inv_def split: option.splits)

lemma birthday_reminder_no_leak:
  assumes "wf_storage st" and "no_leak_inv st" and "available st" and "table_of st \<noteq> None"
  shows "no_leak_inv (snd (birthday_reminder f st))"
proof -
  obtain out st' where b: "birthday_reminder f st = (out, st')" by (cases "birthday_reminder f st")
  from birthday_reminder_effect [OF assms(1) b] consider
      (same) "open_conns st' = open_conns st" "table_of st' = table_of st"
    | (grow) rows r where "open_conns st' = open_conns st" "table_of st = Some rows"
        "int (length rows) < max_rowid" "table_of st' = Some (rows @ [r])"
    | (leak) "open_conns st' = Suc (open_conns st)" "table_of st' = table_of st"
        "available st \<Longrightarrow> table_of st \<noteq> None \<Longrightarrow>
           (\<exists>rows. table_of st = Some rows \<and> max_rowid \<le> int (length rows))"
    by blast
  then have "no_leak_inv st'"
  proof cases
    case same
    with assms(2) show ?thesis by (simp add: no_leak_inv_def)
  next
    case grow
    with assms(2) show ?thesis by (simp add: no_leak_inv_def)
  next
    case leak
    with assms(3,4) obtain rows where "table_of st = Some rows" "max_rowid \<le> int (length rows)"
      by blast
    with leak wf_len_le [OF assms(1)] show ?thesis
      by (simp add: no_leak_inv_def)
  qed
  with b show ?thesis by simp
qed

lemma run_script_no_leak:
  assumes "store_inv st" and "no_leak_inv st"
  shows "no_leak_inv (snd (run_script m i st))"
proof -
  obtain r st1 where i: "init_db st = (r, st1)" by (cases "init_db st")
  have inv1: "store_inv st1" and nl1: "no_leak_inv st1"
    using init_db_store_inv [OF assms(1)] init_db_no_leak [OF assms(2)] i by simp_all
  show ?thesis
  proof (cases r)
    case (Inl e)
    with i nl1 show ?thesis by (simp add: run_script_storage)
  next
    case (Inr u)
    with init_db_effect [OF i] have av: "available st1" and tb: "table_of st1 \<noteq> None"
      by auto
    have "no_leak_inv (snd (dashboard m i st1))"
    proof (cases "choice i = Personal_Coaching \<and> category_choice i = Birthdays_Reminder")
      case True
      then have "snd (dashboard m i st1) = snd (birthday_reminder (event_input i) st1)"
        by (simp add: dashboard_storage personal_page_def)
      with inv1 nl1 av tb birthday_reminder_no_leak show ?thesis
        by (simp add: store_inv_def)
    next
      case False
      then have "snd (dashboard m i st1) = st1"
        by (auto simp: dashboard_storage personal_page_storage)
      with nl1 show ?thesis by simp
    qed
    with i Inr show ?thesis by (simp add: run_script_storage)
  qed
qed

lemma rerun_no_leak: "rerun st st' \<Longrightarrow> store_inv st \<Longrightarrow> no_leak_inv st \<Longrightarrow> no_leak_inv st'"
proof (induction rule: rerun.induct)
  case (run i sentiment_model st out st')
  then show ?case using run_script_no_leak [of st sentiment_model i] by simp
next
  case (env st b)
  then show ?case by (simp add: no_leak_inv_def)
qed

lemma reachable_no_leak_aux: "reachable st \<Longrightarrow> no_leak_inv st"
proof (induction rule: reachable.induct)
  case (start b)
  show ?case by (simp add: no_leak_inv_def)
next
  case (step st st')
  then show ?case by (blast intro: rerun_no_leak reachable_store_inv_aux)
qed

subsection \<open>The scenario run\<close>

lemma asha_run:
  "run_script m asha_input fresh_storage =
     ([Title title_text, Subheader personal_subheader, Success ''Birthday for Asha saved successfully!'',
       Markdown ''---'', Caption caption_text], asha_storage)"
proof -
  have d: "strftime_ymd \<lparr>year = 2025, month = 3, day = 1\<rparr> = ''2025-03-01''"
    by (simp add: strftime_ymd_def zpad_def dec_str.simps digit_char_def)
  then have d': "strftime_ymd \<lparr>year = 2025, month = 3, day = Suc 0\<rparr> = ''2025-03-01''"
    by simp
  show ?thesis
    by (simp add: d' run_script_def init_db_def connect_def create_events_table_def empty_db_def
                  dashboard_def personal_page_def birthday_reminder_def save_event_def
                  insert_event_def max_id_def max_rowid_def new_row_def d saved_msg_def footer_def)
qed

lemma asha_input_ok: "input_ok asha_input"
  by (simp add: input_ok_def form_widgets_ok_def valid_date_def days_in_month_def
                REMINDER_MIN_def REMINDER_MAX_def)

lemma reachable_asha: "reachable asha_storage"
proof -
  have "reachable fresh_storage" by (rule reachable.start)
  moreover have "rerun fresh_storage asha_storage"
    by (rule rerun.run [OF asha_input_ok asha_run])
  ultimately show ?thesis by (rule reachable.step)
qed

subsection \<open>Properties of a run\<close>

text \<open>C7. The only exceptions a run of the script can show are: the database file
  cannot be opened, raised by \<^verbatim>\<open>init_db\<close> before anything is rendered;
  \<^verbatim>\<open>IndexError\<close> of an empty prediction; and \<^verbatim>\<open>SQLITE_FULL\<close>. The missing-table
  error never appears: the table is created before any page can save.\<close>

theorem run_script_exceptions:
  assumes "Traceback e \<in> set (fst (run_script m i st))"
  shows "(e = OperationalError Unable_to_open \<and> fst (run_script m i st) = [Traceback e])
         \<or> e = IndexError \<or> e = OperationalError Database_full"
proof -
  obtain r st1 where i: "init_db st = (r, st1)" by (cases "init_db st")
  show ?thesis
  proof (cases r)
    case (Inl e')
    with init_db_effect [OF i] have "\<not> available st" by simp
    with i Inl have "e' = OperationalError Unable_to_open"
      by (simp add: init_db_unavailable)
    with i Inl assms show ?thesis by (simp add: run_script_def)
  next
    case (Inr u)
    with init_db_effect [OF i] have av: "available st1" and tb: "table_of st1 \<noteq> None"
      by auto
    from assms i Inr have "Traceback e \<in> set (fst (dashboard m i st1))"
      by (simp add: run_script_def)
    from dashboard_traceback [OF this] have "Traceback e \<in> set (fst (personal_page m i st1))"
      by simp
    from personal_page_traceback [OF this] birthday_reminder_traceback_full [OF av tb] show ?thesis
      by blast
  qed
qed

theorem run_script_exceptions_witness:
  "Traceback (OperationalError Unable_to_open)
     \<in> set (fst (run_script (\<lambda>_. []) asha_input \<lparr>db_file = None, available = False, open_conns = 0\<rparr>))
   \<and> ((OperationalError Unable_to_open = OperationalError Unable_to_open
        \<and> fst (run_script (\<lambda>_. []) asha_input \<lparr>db_file = None, available = False, open_conns = 0\<rparr>)
            = [Traceback (OperationalError Unable_to_open)])
      \<or> OperationalError Unable_to_open = IndexError
      \<or> OperationalError Unable_to_open = OperationalError Database_full)"
proof -
  have h: "Traceback (OperationalError Unable_to_open)
     \<in> set (fst (run_script (\<lambda>_. []) asha_input \<lparr>db_file = None, available = False, open_conns = 0\<rparr>))"
    by (simp add: run_script_def init_db_unavailable)
  from h run_script_exceptions [OF h] show ?thesis by blast
qed



text \<open>C20. Only a submitted Birthdays/Anniversaries form writes: on every other page,
  and without a submit, a run leaves the storage exactly as \<^verbatim>\<open>init_db\<close> left it.\<close>

theorem run_script_only_reminder_writes:
  assumes "choice i = Professional_Coaching \<or> category_choice i \<noteq> Birthdays_Reminder
           \<or> \<not> submit (event_input i)"
  shows "snd (run_script m i st) = snd (init_db st)"
proof -
  have "snd (dashboard m i st1) = st1" for st1
    using assms by (cases "choice i"; cases "category_choice i") (auto simp: dashboard_storage personal_page_def)
  then show ?thesis
    by (simp add: run_script_storage split: sum.splits prod.splits)
qed

theorem run_script_only_reminder_writes_witness:
  "(choice (asha_input\<lparr>category_choice := Health_Fitness\<rparr>) = Professional_Coaching
      \<or> category_choice (asha_input\<lparr>category_choice := Health_Fitness\<rparr>) \<noteq> Birthdays_Reminder
      \<or> \<not> submit (event_input (asha_input\<lparr>category_choice := Health_Fitness\<rparr>)))
   \<and> snd (run_script (\<lambda>_. []) (asha_input\<lparr>category_choice := Health_Fitness\<rparr>) fresh_storage)
       = snd (init_db fresh_storage)"
proof -
  have h: "choice (asha_input\<lparr>category_choice := Health_Fitness\<rparr>) = Professional_Coaching
      \<or> category_choice (asha_input\<lparr>category_choice := Health_Fitness\<rparr>) \<noteq> Birthdays_Reminder
      \<or> \<not> submit (event_input (asha_input\<lparr>category_choice := Health_Fitness\<rparr>))"
    by simp
  from h run_script_only_reminder_writes [OF h] show ?thesis by blast
qed

end
