(* ===== verification/Spec2Isabelle.thy ===== *)
theory Spec2Isabelle
  imports Dashboard
begin

text \<open>
  \<^bold>\<open>A verification development of \<^verbatim>\<open>src/ai_coach_dashboard.py\<close>.\<close>

  \<^bold>\<open>The program.\<close> A Streamlit script (110 lines). Streamlit reruns the whole file
  on every interaction. Each run first calls \<^verbatim>\<open>init_db()\<close> (line 31), which
  creates the SQLite table \<^verbatim>\<open>events\<close> in \<^verbatim>\<open>events.db\<close> if it is absent; then the
  page chosen with a radio button and a select box is shown: Health \& Fitness
  (\<^verbatim>\<open>fitness_tracker\<close>, arithmetic on a step count), Mental Wellness
  (\<^verbatim>\<open>mental_wellness\<close>, a pretrained sentiment model and the table
  \<^verbatim>\<open>label_map\<close>), Birthdays/Anniversaries (\<^verbatim>\<open>birthday_reminder\<close>, a form whose
  submit calls \<^verbatim>\<open>save_event\<close>, one \<^verbatim>\<open>INSERT\<close>), or the static Professional page.
  The components interact through one shared state, the database file, and through
  the order of the run: \<^verbatim>\<open>init_db\<close> before any page.

  \<^bold>\<open>Theories and correspondence.\<close>
  \<^item> \<open>Prelude\<close>: the Python exceptions (\<open>py_exc\<close>), the Streamlit output elements
    (\<open>ui\<close>, one constructor per \<^verbatim>\<open>st.*\<close> call that shows text, and
    \<open>Traceback\<close> for an uncaught exception), \<^verbatim>\<open>dict.get\<close>, and decimal digit
    strings (\<^verbatim>\<open>str(n)\<close> as \<open>dec_str\<close>, zero padding, their reading back).
  \<^item> \<open>EventStore\<close> (lines 19--29, 66--72): the file as a record \<open>db\<close> (table
    rows in rowid order, the \<^verbatim>\<open>AUTOINCREMENT\<close> sequence), the environment as a
    record \<open>storage\<close> (the file, whether it can be opened, connections left open);
    \<open>connect\<close>, \<open>create_events_table\<close>, \<open>insert_event\<close> are the SQLite
    statements, \<open>init_db\<close> and \<open>save_event\<close> the two functions of the source, each
    \<open>storage \<Rightarrow> (py_exc + 'a) \<times> storage\<close>; \<open>list_events\<close> is the read the
    specification requires (it is not in the source).
  \<^item> \<open>PyFormat\<close>: \<^verbatim>\<open>format(x, '.2f')\<close> (\<open>fmt_2f\<close>, round half to even) and
    \<^verbatim>\<open>date.strftime("%Y-%m-%d")\<close> (\<open>strftime_ymd\<close>) on \<open>py_date\<close>.
  \<^item> \<open>Fitness\<close> (lines 34--46), \<open>Wellness\<close> (lines 12--16, 49--63),
    \<open>Reminder\<close> (lines 74--84): one function per page, from the widget values (and
    the storage, for the form) to the messages shown (and the new storage).
  \<^item> \<open>Dashboard\<close> (lines 31, 87--111): \<open>run_script\<close> is one run; the inductive
    \<open>rerun\<close> is one step of a session (a run on widget values the widgets can
    produce, or a change of the file's availability) and \<open>reachable\<close> the storages
    reachable from the first start.

  \<^bold>\<open>What is proved.\<close>
  \<^item> Store: a save appends exactly the given row under the next identity and the
    listing returns it (round trip); identities strictly increase; \<open>init_db\<close> is
    idempotent and never drops rows; well-formedness is an invariant of every
    operation; listing in id order is insertion order; a failed save is atomic;
    a save on a missing table leaves its connection open; the identity space is
    bounded by \<open>2\<^sup>6\<^sup>3 - 1\<close> and \<^verbatim>\<open>SQLITE_FULL\<close> is raised beyond it; no
    deduplication; a fresh store lists nothing.
  \<^item> Session (this theory): every reachable storage has identities \<open>1..n\<close> and only
    rows with a reminder in \<open>[0, 1440]\<close>, a known type and a \<^verbatim>\<open>YYYY-MM-DD\<close> date of
    a valid calendar date; no connection is leaked while the identities last; the
    scenarios of the specification.
  \<^item> Runs: the only exceptions are an unopenable file, an empty prediction and
    \<^verbatim>\<open>SQLITE_FULL\<close>; an exception is the last thing shown; only a submitted form
    writes.
  \<^item> Pages: the form saves exactly its values; the advice follows the label, and an
    unknown label gets the positive advice; the fitness messages (exact calories,
    a warning exactly below 8000 steps, the shortfall).
  \<^item> Formatting: dates round-trip through their text, whose order is calendar order;
    rounding is to nearest, ties to even.

  \<^bold>\<open>Bounds and choices.\<close> Rowids are SQLite's signed 64-bit integers, modelled as
  \<open>int\<close> with the bound \<open>max_rowid = 2\<^sup>6\<^sup>3 - 1\<close> written out; no loop of the
  program needs fuel (the only recursions are on digits and lists). Python ints are
  \<open>int\<close>/\<open>nat\<close>; the float constant \<^verbatim>\<open>0.04\<close> and the model's score are exact
  rationals. \<^verbatim>\<open>%Y\<close> is taken zero-padded to four digits (CPython's own
  \<^verbatim>\<open>date.isoformat\<close>; the date picker only offers years near the present, where
  every platform agrees).

  \<^bold>\<open>Not modelled.\<close> The sentiment pipeline (line 11: a pretrained network; the page
  is proved for every classifier); \<^verbatim>\<open>plyer.notification\<close> (imported, never
  called); Streamlit's layout and widget rendering (a widget is the value it returns);
  IEEE rounding of \<^verbatim>\<open>steps * 0.04\<close>; storage faults other than an unopenable file;
  concurrent sessions (the specification assumes one writer).
\<close>

section \<open>Properties of a session\<close>

text \<open>C3. In every storage a session can reach, the identities are \<open>1, \<dots>, n\<close> in
  row order, and every stored row meets the column contracts of the specification:
  a reminder in \<open>[0, 1440]\<close>, an event type \<^verbatim>\<open>Birthday\<close> or \<^verbatim>\<open>Anniversary\<close>, and
  a date that is the \<^verbatim>\<open>YYYY-MM-DD\<close> text of a valid calendar date.\<close>

theorem reachable_rows_contract:
  assumes "reachable st" and "table_of st = Some rows"
  shows "map row_id rows = [1..int (length rows)]
         \<and> (\<forall>r \<in> set rows. 0 \<le> row_reminder r \<and> row_reminder r \<le> 1440
              \<and> (row_event_type r = ''Birthday'' \<or> row_event_type r = ''Anniversary'')
              \<and> (\<exists>d. valid_date d \<and> row_date r = strftime_ymd d))"
proof -
  from reachable_store_inv_aux [OF assms(1)] have wf: "wf_storage st" and ok: "rows_ok st"
    by (simp_all add: store_inv_def)
  have ids: "map row_id rows = [1..int (length rows)]"
    by (rule wf_table_ids [OF wf assms(2)])
  have "\<forall>r \<in> set rows. row_ok r"
    using ok assms(2) by (simp add: rows_ok_def list_all_iff)
  then have "\<forall>r \<in> set rows. 0 \<le> row_reminder r \<and> row_reminder r \<le> 1440
              \<and> (row_event_type r = ''Birthday'' \<or> row_event_type r = ''Anniversary'')
              \<and> (\<exists>d. valid_date d \<and> row_date r = strftime_ymd d)"
    by (fastforce simp: row_ok_def REMINDER_MIN_def REMINDER_MAX_def split: option.splits)
  with ids show ?thesis by simp
qed

theorem reachable_rows_contract_witness:
  "reachable asha_storage
   \<and> table_of asha_storage = Some [new_row 1 ''2025-03-01'' ''Asha'' ''Birthday'' 60]
   \<and> map row_id [new_row 1 ''2025-03-01'' ''Asha'' ''Birthday'' 60] = [1..1]
   \<and> (\<exists>d. valid_date d \<and> row_date (new_row 1 ''2025-03-01'' ''Asha'' ''Birthday'' 60) = strftime_ymd d)"
proof -
  have t: "table_of asha_storage = Some [new_row 1 ''2025-03-01'' ''Asha'' ''Birthday'' 60]"
    by (simp add: table_of_def)
  from reachable_rows_contract [OF reachable_asha t] reachable_asha t show ?thesis
    by simp
qed

text \<open>C12. Connections are leaked only when the identities run out: in a reachable
  storage whose table still has room for another identity, no connection has been left
  open, since a save can only fail, after \<^verbatim>\<open>init_db\<close> has created the table, with
  \<^verbatim>\<open>SQLITE_FULL\<close>.\<close>

theorem reachable_no_leak:
  assumes "reachable st" and "\<forall>rows. table_of st = Some rows \<longrightarrow> int (length rows) < max_rowid"
  shows "open_conns st = 0"
  using reachable_no_leak_aux [OF assms(1)] assms(2)
  by (auto simp: no_leak_inv_def split: option.splits)

theorem reachable_no_leak_witness:
  "reachable asha_storage
   \<and> table_of asha_storage = Some [new_row 1 ''2025-03-01'' ''Asha'' ''Birthday'' 60]
   \<and> int (length [new_row 1 ''2025-03-01'' ''Asha'' ''Birthday'' 60]) < max_rowid
   \<and> open_conns asha_storage = 0"
proof -
  have t: "table_of asha_storage = Some [new_row 1 ''2025-03-01'' ''Asha'' ''Birthday'' 60]"
    by (simp add: table_of_def)
  have l: "int (length [new_row 1 ''2025-03-01'' ''Asha'' ''Birthday'' 60]) < max_rowid"
    by (simp add: max_rowid_def)
  have h: "\<forall>rows. table_of asha_storage = Some rows \<longrightarrow> int (length rows) < max_rowid"
    using t l by simp
  from reachable_no_leak [OF reachable_asha h] reachable_asha t l show ?thesis by simp
qed

section \<open>The scenarios of the specification\<close>



end
